theory Spec2Isabelle
  imports Main "HOL-Library.Signed_Division"
begin

section \<open>The Work Item and the transport message\<close>

text \<open>
  The three services declare the same \<^verbatim>\<open>PipelineMessage\<close> struct. The anonymous inner
  struct of the field \<^verbatim>\<open>Pipeline\<close> is the record \<open>PipelineT\<close>. \<^verbatim>\<open>CurrentStep\<close> is a Go
  \<^verbatim>\<open>int\<close>; the services only assign constants to it, so it is an \<open>int\<close> here.
\<close>

record PipelineT =
  StartTime :: string
  Step1Complete :: string
  Step2Complete :: string
  CurrentStep :: int

record PipelineMessage =
  CorrelationID :: string
  Data :: string
  Pipeline :: PipelineT
  ErrorType :: string

text \<open>
  \<^verbatim>\<open>types.Message\<close> of the SQS client, with the fields the services read. Pointer fields
  are options; an attribute maps to its \<^verbatim>\<open>StringValue\<close>, which may be nil.
\<close>

record Message =
  MessageId :: "string option"
  Body :: "string option"
  MessageAttributes :: "string \<rightharpoonup> string option"
  ReceiptHandle :: "string option"

section \<open>Errors, spans and observable effects\<close>

text \<open>A Go error value: what \<^verbatim>\<open>%T\<close> prints for it and what \<^verbatim>\<open>Error()\<close> returns.\<close>

datatype error = GoError (errType: string) (errMsg: string)

text \<open>
  A span context is either one extracted from a carrier (identified by an opaque token) or
  the context of a span started in this process, given by the operation name and the parent.
  A span is identified with its context.
\<close>

datatype span_context = Remote string | Local string "span_context option"

datatype val = S string | I int | B bool

datatype level = Debug | Info | Warn | Error

datatype effect =
    StartSpan span_context
  | FinishSpan span_context
  | SetTag span_context string val
  | Log level "(string \<times> val) list" "error option" string
  | Incr string "string list"
  | Timing string int "string list"
  | Sleep int
  | SendMessage string string "string \<rightharpoonup> string"
  | DeleteMessage string "string option"
  | HttpError string nat
  | WriteJSON "(string \<times> val) list"

datatype outcome = Returned | Panicked

section \<open>The collaborators outside the repository\<close>

text \<open>
  The services call the JSON codec, the clock, the UUID generator, the tracer and the SQS
  client. None of them is code of the repository: each is a field of the record \<open>ext\<close>,
  which gives what these calls return during one invocation of a handler.
  \<open>now k\<close> is the reading of \<^verbatim>\<open>time.Now()\<close> at the \<open>k\<close>-th call site of the handler, in
  source order, in nanoseconds; \<open>stack k\<close> is what \<^verbatim>\<open>runtime.Stack\<close> writes at its \<open>k\<close>-th
  call site.
\<close>

record ext =
  unmarshal :: "string \<Rightarrow> error + PipelineMessage"
  marshal :: "PipelineMessage \<Rightarrow> error + string"
  parseTime :: "string \<Rightarrow> int option"
  formatTime :: "int \<Rightarrow> string"
  now :: "nat \<Rightarrow> int"
  uuid :: string
  Extract :: "(string \<rightharpoonup> string) \<Rightarrow> error + span_context"
  Inject :: "span_context \<Rightarrow> (string \<rightharpoonup> string) \<times> error option"
  traceID :: "span_context \<Rightarrow> string"
  traceIDLower :: "span_context \<Rightarrow> nat"
  stack :: "nat \<Rightarrow> string"
  sendMessage :: "string \<Rightarrow> string \<Rightarrow> (string \<rightharpoonup> string) \<Rightarrow> error option"
  deleteMessage :: "string \<Rightarrow> string option \<Rightarrow> error option"

text \<open>The process configuration of the sharded stage 2, read from the environment at start.\<close>

record config =
  shardID :: string
  servicePort :: string

section \<open>Durations\<close>

text \<open>
  A \<^verbatim>\<open>time.Duration\<close> is a signed 64-bit count of nanoseconds; \<^verbatim>\<open>Time.Sub\<close> saturates.
\<close>

definition saturate :: "int \<Rightarrow> int" where
  "saturate d = (if d < - (2 ^ 63) then - (2 ^ 63) else if 2 ^ 63 - 1 < d then 2 ^ 63 - 1 else d)"

definition Sub :: "int \<Rightarrow> int \<Rightarrow> int" where
  "Sub t u = saturate (t - u)"

definition Millisecond :: int where
  "Millisecond = 1000000"

definition Second :: int where
  "Second = 1000 * Millisecond"

definition Milliseconds :: "int \<Rightarrow> int" where
  "Milliseconds d = d sdiv 1000000"

section \<open>Stage 2: \<^verbatim>\<open>shard/service2/main.go\<close>\<close>

definition inputQueueURL :: string where
  "inputQueueURL = ''https://sqs.us-east-1.amazonaws.com/025775160945/service-queue-step1''"

definition outputQueueURL :: string where
  "outputQueueURL = ''https://sqs.us-east-1.amazonaws.com/025775160945/service-queue-step2''"

definition getMessageID :: "Message \<Rightarrow> string" where
  "getMessageID msg = (case MessageId msg of Some i \<Rightarrow> i | None \<Rightarrow> ''unknown'')"

text \<open>
  The local variable \<^verbatim>\<open>correlationID\<close> of the consumers: the field of the decoded message,
  or a fresh UUID when the field is empty. The message itself is not assigned to.
\<close>

definition correlationID_of :: "ext \<Rightarrow> PipelineMessage \<Rightarrow> string" where
  "correlationID_of x message =
     (if CorrelationID message = [] then uuid x else CorrelationID message)"

text \<open>The carrier: the attributes whose \<^verbatim>\<open>StringValue\<close> is not nil.\<close>

definition carrier_of :: "(string \<rightharpoonup> string option) \<Rightarrow> (string \<rightharpoonup> string)" where
  "carrier_of attrs = (\<lambda>key. case attrs key of Some (Some v) \<Rightarrow> Some v | _ \<Rightarrow> None)"

text \<open>The branch of \<^verbatim>\<open>processStep2Message\<close> taken when \<^verbatim>\<open>json.Unmarshal\<close> fails.\<close>

definition step2_malformed :: "config \<Rightarrow> ext \<Rightarrow> Message \<Rightarrow> error \<Rightarrow> effect list" where
  "step2_malformed cfg x msg err =
     [Log Error [(''service'', S ''service2''), (''operation'', S ''json_unmarshal''),
                 (''shard'', S (shardID cfg)), (''message.id'', S (getMessageID msg)),
                 (''queue.url'', S inputQueueURL)]
        (Some err) ''Failed to unmarshal pipeline message, skipping'',
      Incr ''business.pipeline.errors.json.unmarshal'' [''service:service2''],
      DeleteMessage inputQueueURL (ReceiptHandle msg)] @
     (case deleteMessage x inputQueueURL (ReceiptHandle msg) of
        Some delErr \<Rightarrow> [Log Error [] (Some delErr) ''Failed to delete malformed message'']
      | None \<Rightarrow> [])"

text \<open>Extracting the span context and starting the receive span.\<close>

definition step2_receive_span ::
  "config \<Rightarrow> ext \<Rightarrow> string \<Rightarrow> (string \<rightharpoonup> string) \<Rightarrow> span_context \<times> effect list" where
  "step2_receive_span cfg x correlationID carrier =
     (case Extract x carrier of
        Inl err \<Rightarrow>
          (Local ''sqs.receive'' None,
           [StartSpan (Local ''sqs.receive'' None),
            Log Debug [(''correlation.id'', S correlationID), (''service'', S ''service2''),
                       (''shard'', S (shardID cfg)), (''operation'', S ''trace_extract'')]
              (Some err) ''Failed to extract trace context, starting new span''])
      | Inr spanCtx \<Rightarrow>
          (Local ''sqs.receive'' (Some spanCtx),
           [StartSpan (Local ''sqs.receive'' (Some spanCtx))]))"

definition step2_receive_tags :: "config \<Rightarrow> span_context \<Rightarrow> string \<Rightarrow> effect list" where
  "step2_receive_tags cfg span correlationID =
     [SetTag span ''span.kind'' (S ''consumer''),
      SetTag span ''messaging.system'' (S ''sqs''),
      SetTag span ''messaging.destination'' (S ''service-queue-step1''),
      SetTag span ''messaging.operation'' (S ''receive''),
      SetTag span ''shard'' (S (shardID cfg)),
      SetTag span ''service'' (S ''service2''),
      SetTag span ''service.name'' (S ''service2''),
      SetTag span ''service.port'' (S (servicePort cfg)),
      SetTag span ''env'' (S ''pipeline''),
      SetTag span ''correlation.id'' (S correlationID),
      SetTag span ''pipeline.step'' (I 2),
      SetTag span ''aws.service'' (S ''sqs''),
      SetTag span ''aws.operation'' (S ''ReceiveMessage'')]"

text \<open>The step-1-to-step-2 duration, computed when \<^verbatim>\<open>step1_complete\<close> parses.\<close>

definition step2_transit_metric :: "ext \<Rightarrow> PipelineMessage \<Rightarrow> int \<Rightarrow> effect list" where
  "step2_transit_metric x message step2Start =
     (case parseTime x (Step1Complete (Pipeline message)) of
        Some step1Time \<Rightarrow>
          [Timing ''business.pipeline.step1_to_step2.duration'' (Sub step2Start step1Time)
             [''service:service2'']]
      | None \<Rightarrow> [])"

text \<open>The branch taken when \<^verbatim>\<open>message.ErrorType == "invalid_data"\<close>.\<close>

definition step2_short_circuit ::
  "config \<Rightarrow> ext \<Rightarrow> Message \<Rightarrow> PipelineMessage \<Rightarrow> span_context \<Rightarrow> string \<Rightarrow> effect list" where
  "step2_short_circuit cfg x msg message span correlationID =
     [Incr ''business.pipeline.errors.step2'' [''service:service2'', ''type:inherited''],
      SetTag span ''error.inherited'' (B True),
      SetTag span ''error'' (B True),
      SetTag span ''error.msg'' (S (''inherited error from step1: '' @ ErrorType message)),
      SetTag span ''error.type'' (S ''BusinessLogicError''),
      Log Error [(''dd.trace_id'', S (traceID x span)), (''correlation.id'', S correlationID),
                 (''service'', S ''service2''), (''shard'', S (shardID cfg)),
                 (''pipeline.step'', I 2), (''error.type'', S (ErrorType message)),
                 (''error.source'', S ''step1''), (''message.data'', S (Data message)),
                 (''action'', S ''skipping_step2_processing'')]
        None
        ''Step2 processing failed - inherited error from step1, message will not be forwarded to step3'',
      DeleteMessage inputQueueURL (ReceiptHandle msg)] @
     (case deleteMessage x inputQueueURL (ReceiptHandle msg) of
        Some err \<Rightarrow>
          [Log Error [(''correlation.id'', S correlationID), (''error'', S (errMsg err))] None
             ''Failed to delete failed message from step1 queue'']
      | None \<Rightarrow> []) @
     [Incr ''sli.processing.total'' [''service:service2'', ''operation:message_processing''],
      Incr ''sli.processing.error''
        [''service:service2'', ''operation:message_processing'', ''error_type:inherited_error''],
      Incr ''business.pipeline.failed.step2'' [''service:service2'']]"

text \<open>
  The three assignments under \<^verbatim>\<open>// Update message for step3\<close>. The timestamp is the third
  reading of the clock (after the start and the measured duration).
\<close>

definition step2_update :: "ext \<Rightarrow> PipelineMessage \<Rightarrow> PipelineMessage" where
  "step2_update x message =
     message\<lparr>Data := ''Processed by service2: '' @ Data message,
             Pipeline := (Pipeline message)\<lparr>Step2Complete := formatTime x (now x 2),
                                            CurrentStep := 2\<rparr>\<rparr>"

definition step2_success_metrics :: "config \<Rightarrow> int \<Rightarrow> effect list" where
  "step2_success_metrics cfg step2Duration =
     [Incr ''sli.processing.total'' [''service:service2'', ''operation:message_processing''],
      Incr ''sli.processing.success'' [''service:service2'', ''operation:message_processing'']] @
     (if step2Duration \<le> 50 * Millisecond
      then [Incr ''sli.latency.under_50ms'' [''service:service2'']] else []) @
     [Timing ''sli.processing_time'' step2Duration
        [''service:service2'', ''operation:message_processing''],
      Timing ''business.pipeline.step2.duration'' step2Duration [''service:service2''],
      Incr ''business.pipeline.messages.step2'' [''service:service2''],
      Timing ''sli.pipeline.duration'' step2Duration
        [''service:service2'', ''shard:'' @ shardID cfg, ''step:2'']]"

text \<open>
  The attributes of an outgoing message, built the same way by stage 1 and stage 2: the
  \<^verbatim>\<open>correlation-id\<close> entry, then one entry per key of the carrier that \<^verbatim>\<open>tracer.Inject\<close>
  filled for the sending span (an entry of the carrier under the same key replaces it).
\<close>

definition msgAttrs_of :: "ext \<Rightarrow> span_context \<Rightarrow> string \<Rightarrow> (string \<rightharpoonup> string)" where
  "msgAttrs_of x sendingSpan correlationID =
     [''correlation-id'' \<mapsto> correlationID] ++ fst (Inject x sendingSpan)"

text \<open>
  Forwarding: the send span, the injected carrier, the attributes, marshalling, sending and,
  only after a send without error, the deletion from the input queue. The two
  \<^verbatim>\<open>context.WithTimeout\<close> bounds are not modelled: an expired bound is an error returned by
  the SQS call.
\<close>

definition step2_send_tags :: "config \<Rightarrow> span_context \<Rightarrow> string \<Rightarrow> effect list" where
  "step2_send_tags cfg sqsSendSpan correlationID =
     [SetTag sqsSendSpan ''span.kind'' (S ''producer''),
      SetTag sqsSendSpan ''messaging.system'' (S ''sqs''),
      SetTag sqsSendSpan ''messaging.destination'' (S ''service-queue-step2''),
      SetTag sqsSendSpan ''shard'' (S (shardID cfg)),
      SetTag sqsSendSpan ''service.name'' (S ''service2''),
      SetTag sqsSendSpan ''service.port'' (S (servicePort cfg)),
      SetTag sqsSendSpan ''correlation.id'' (S correlationID),
      SetTag sqsSendSpan ''aws.service'' (S ''sqs''),
      SetTag sqsSendSpan ''aws.operation'' (S ''SendMessage'')]"

definition step2_error_tags :: "span_context \<Rightarrow> span_context \<Rightarrow> error \<Rightarrow> effect list" where
  "step2_error_tags sqsSendSpan span err =
     [SetTag sqsSendSpan ''error'' (B True),
      SetTag sqsSendSpan ''error.msg'' (S (errMsg err)),
      SetTag sqsSendSpan ''error.type'' (S (errType err)),
      SetTag span ''error'' (B True),
      SetTag span ''error.msg'' (S (errMsg err))]"

definition step2_marshal_failed ::
  "config \<Rightarrow> ext \<Rightarrow> span_context \<Rightarrow> span_context \<Rightarrow> string \<Rightarrow> error \<Rightarrow> effect list" where
  "step2_marshal_failed cfg x sqsSendSpan span correlationID err =
     step2_error_tags sqsSendSpan span err @
     [Log Error [(''dd.trace_id'', S (traceID x span)), (''correlation.id'', S correlationID),
                 (''service'', S ''service2''), (''shard'', S (shardID cfg)),
                 (''pipeline.step'', I 2), (''operation'', S ''json_marshal'')]
        (Some err) ''Failed to marshal message for step3'']"

definition step2_send_failed ::
  "config \<Rightarrow> ext \<Rightarrow> span_context \<Rightarrow> span_context \<Rightarrow> string \<Rightarrow> error \<Rightarrow> effect list" where
  "step2_send_failed cfg x sqsSendSpan span correlationID err =
     step2_error_tags sqsSendSpan span err @
     [Log Error [(''dd.trace_id'', S (traceID x span)), (''correlation.id'', S correlationID),
                 (''service'', S ''service2''), (''shard'', S (shardID cfg)),
                 (''pipeline.step'', I 2), (''operation'', S ''sqs_send''),
                 (''queue.url'', S outputQueueURL)]
        (Some err) ''Failed to send message to step3 queue'',
      Incr ''sli.processing.total'' [''service:service2'', ''operation:message_processing''],
      Incr ''sli.processing.error''
        [''service:service2'', ''operation:message_processing'', ''error_type:sqs_send_failure''],
      Incr ''business.pipeline.errors.sqs.send'' [''service:service2'']]"

definition step2_delete_processed ::
  "config \<Rightarrow> ext \<Rightarrow> Message \<Rightarrow> span_context \<Rightarrow> string \<Rightarrow> int \<Rightarrow> effect list" where
  "step2_delete_processed cfg x msg span correlationID step2Duration =
     DeleteMessage inputQueueURL (ReceiptHandle msg) #
     (case deleteMessage x inputQueueURL (ReceiptHandle msg) of
        Some err \<Rightarrow>
          [Log Error [(''correlation.id'', S correlationID), (''error'', S (errMsg err))] None
             ''Failed to delete processed message from step1 queue'']
      | None \<Rightarrow> []) @
     [Log Info [(''dd.trace_id'', S (traceID x span)), (''correlation.id'', S correlationID),
                (''service'', S ''service2''), (''shard'', S (shardID cfg)),
                (''pipeline.step'', I 2), (''step2_duration'', I (Milliseconds step2Duration))]
        None ''Step2 completed, message sent to step3'']"

definition step2_forward ::
  "config \<Rightarrow> ext \<Rightarrow> Message \<Rightarrow> PipelineMessage \<Rightarrow> span_context \<Rightarrow> string \<Rightarrow> int \<Rightarrow> effect list" where
  "step2_forward cfg x msg message span correlationID step2Duration =
     (let sqsSendSpan = Local ''sqs.send'' (Some span);
          msgAttrs = msgAttrs_of x sqsSendSpan correlationID
      in StartSpan sqsSendSpan # step2_send_tags cfg sqsSendSpan correlationID @
         (case snd (Inject x sqsSendSpan) of
            Some err \<Rightarrow>
              [Log Debug [(''correlation.id'', S correlationID), (''service'', S ''service2''),
                          (''shard'', S (shardID cfg)), (''operation'', S ''trace_inject'')]
                 (Some err) ''Failed to inject trace context, continuing without tracing'']
          | None \<Rightarrow> []) @
         (case marshal x message of
            Inl err \<Rightarrow> step2_marshal_failed cfg x sqsSendSpan span correlationID err
          | Inr msgBody \<Rightarrow>
              SendMessage outputQueueURL msgBody msgAttrs #
              (case sendMessage x outputQueueURL msgBody msgAttrs of
                 Some err \<Rightarrow> step2_send_failed cfg x sqsSendSpan span correlationID err
               | None \<Rightarrow> step2_delete_processed cfg x msg span correlationID step2Duration)) @
         [FinishSpan sqsSendSpan])"

text \<open>
  \<^verbatim>\<open>processStep2Message\<close>. Dereferencing a nil \<^verbatim>\<open>msg.Body\<close> panics. The deferred
  \<^verbatim>\<open>span.Finish()\<close> runs on every return after the receive span was started.
\<close>

definition processStep2Message :: "config \<Rightarrow> ext \<Rightarrow> Message \<Rightarrow> effect list \<times> outcome" where
  "processStep2Message cfg x msg =
     (case Body msg of
        None \<Rightarrow> ([], Panicked)
      | Some body \<Rightarrow>
          (case unmarshal x body of
             Inl err \<Rightarrow> (step2_malformed cfg x msg err, Returned)
           | Inr message \<Rightarrow>
               (let step2Start = now x 0;
                    correlationID = correlationID_of x message;
                    carrier = carrier_of (MessageAttributes msg);
                    span = fst (step2_receive_span cfg x correlationID carrier)
                in (snd (step2_receive_span cfg x correlationID carrier) @
                    step2_receive_tags cfg span correlationID @
                    step2_transit_metric x message step2Start @
                    (if ErrorType message = ''invalid_data''
                     then step2_short_circuit cfg x msg message span correlationID
                     else Sleep (30 * Millisecond) #
                          step2_success_metrics cfg (Sub (now x 1) step2Start) @
                          step2_forward cfg x msg (step2_update x message) span correlationID
                            (Sub (now x 1) step2Start)) @
                    [FinishSpan span],
                    Returned))))"

text \<open>
  \<^verbatim>\<open>consumeFromStep1\<close> is \<^verbatim>\<open>for { ... }\<close> without \<^verbatim>\<open>break\<close> or \<^verbatim>\<open>return\<close>. One
  iteration is one call of \<^verbatim>\<open>ReceiveMessage\<close>: it fails, or it returns messages, each
  handled while the collaborators behave as its \<open>ext\<close> says. The loop is run over a
  finite script of iterations; \<open>Polling\<close> says that the loop is at its head again, about to
  receive, \<open>Crashed\<close> that a handler panicked.
\<close>

datatype receive = ReceiveError error | Messages "(ext \<times> Message) list"

datatype loop = Polling | Crashed

fun step2_messages :: "config \<Rightarrow> (ext \<times> Message) list \<Rightarrow> effect list \<times> outcome" where
  "step2_messages cfg [] = ([], Returned)"
| "step2_messages cfg ((x, msg) # rest) =
     (case processStep2Message cfg x msg of
        (effs, Panicked) \<Rightarrow> (effs, Panicked)
      | (effs, Returned) \<Rightarrow>
          (case step2_messages cfg rest of (effs', out) \<Rightarrow> (effs @ effs', out)))"

definition step2_receive_failed :: "config \<Rightarrow> error \<Rightarrow> effect list" where
  "step2_receive_failed cfg err =
     [Log Error [(''service'', S ''service2''), (''operation'', S ''sqs_receive''),
                 (''shard'', S (shardID cfg)), (''queue.url'', S inputQueueURL)]
        (Some err) ''Failed to receive messages from SQS, retrying...'',
      Incr ''business.pipeline.errors.sqs.receive'' [''service:service2''],
      Sleep (5 * Second)]"

fun consumeFromStep1 :: "config \<Rightarrow> receive list \<Rightarrow> effect list \<times> loop" where
  "consumeFromStep1 cfg [] = ([], Polling)"
| "consumeFromStep1 cfg (ReceiveError err # script) =
     (case consumeFromStep1 cfg script of
        (effs, l) \<Rightarrow> (step2_receive_failed cfg err @ effs, l))"
| "consumeFromStep1 cfg (Messages msgs # script) =
     (case step2_messages cfg msgs of
        (effs, Panicked) \<Rightarrow> (effs, Crashed)
      | (effs, Returned) \<Rightarrow>
          (case consumeFromStep1 cfg script of (effs', l) \<Rightarrow> (effs @ effs', l)))"

section \<open>Stage 3: \<^verbatim>\<open>service3/main.go\<close>\<close>

definition service3_queueURL :: string where
  "service3_queueURL = ''https://sqs.us-east-1.amazonaws.com/025775160945/service-queue-step2''"

definition step3_malformed :: "error \<Rightarrow> effect list" where
  "step3_malformed err =
     [Log Error [(''service'', S ''service3''), (''operation'', S ''json_unmarshal''),
                 (''queue.url'', S service3_queueURL)]
        (Some err) ''Failed to unmarshal pipeline message, skipping'']"

definition step3_receive_span ::
  "ext \<Rightarrow> string \<Rightarrow> (string \<rightharpoonup> string) \<Rightarrow> span_context \<times> effect list" where
  "step3_receive_span x correlationID carrier =
     (case Extract x carrier of
        Inl err \<Rightarrow>
          (Local ''sqs.receive'' None,
           [StartSpan (Local ''sqs.receive'' None),
            Log Debug [(''correlation.id'', S correlationID), (''service'', S ''service3''),
                       (''operation'', S ''trace_extract'')]
              (Some err) ''Failed to extract trace context, starting new span''])
      | Inr spanCtx \<Rightarrow>
          (Local ''sqs.receive'' (Some spanCtx),
           [StartSpan (Local ''sqs.receive'' (Some spanCtx))]))"

definition step3_receive_tags :: "span_context \<Rightarrow> string \<Rightarrow> effect list" where
  "step3_receive_tags span correlationID =
     [SetTag span ''span.kind'' (S ''consumer''),
      SetTag span ''messaging.system'' (S ''sqs''),
      SetTag span ''messaging.destination'' (S ''service-queue-step2''),
      SetTag span ''messaging.operation'' (S ''receive''),
      SetTag span ''service.name'' (S ''service3''),
      SetTag span ''correlation.id'' (S correlationID),
      SetTag span ''pipeline.step'' (I 3),
      SetTag span ''aws.service'' (S ''sqs''),
      SetTag span ''aws.operation'' (S ''ReceiveMessage'')]"

definition step3_transit_metric :: "ext \<Rightarrow> PipelineMessage \<Rightarrow> int \<Rightarrow> effect list" where
  "step3_transit_metric x message step3Start =
     (case parseTime x (Step2Complete (Pipeline message)) of
        Some step2Time \<Rightarrow>
          [Timing ''business.pipeline.step2_to_step3.duration'' (Sub step3Start step2Time)
             [''service:service3'']]
      | None \<Rightarrow> [])"

text \<open>
  The block under \<^verbatim>\<open>// Calculate end-to-end pipeline duration\<close>: three nested
  \<^verbatim>\<open>if ... err == nil\<close>, the calculated durations inside the one on \<^verbatim>\<open>start_time\<close>.
\<close>

definition step3_calculated_metrics :: "ext \<Rightarrow> PipelineMessage \<Rightarrow> effect list" where
  "step3_calculated_metrics x message =
     (case parseTime x (StartTime (Pipeline message)) of
        None \<Rightarrow> []
      | Some startTime \<Rightarrow>
          Timing ''business.pipeline.end_to_end.duration'' (Sub (now x 2) startTime)
            [''service:service3''] #
          (case parseTime x (Step1Complete (Pipeline message)) of
             None \<Rightarrow> []
           | Some step1Time \<Rightarrow>
               Timing ''business.pipeline.step1.calculated_duration'' (Sub step1Time startTime)
                 [''service:service3''] #
               (case parseTime x (Step2Complete (Pipeline message)) of
                  None \<Rightarrow> []
                | Some step2Time \<Rightarrow>
                    [Timing ''business.pipeline.step2.calculated_duration''
                       (Sub step2Time step1Time) [''service:service3'']])))"

definition step3_sli_metrics :: "int \<Rightarrow> effect list" where
  "step3_sli_metrics step3Duration =
     [Incr ''sli.processing.total'' [''service:service3'', ''operation:final_processing''],
      Incr ''sli.processing.success'' [''service:service3'', ''operation:final_processing'']] @
     (if step3Duration \<le> 60 * Millisecond
      then [Incr ''sli.latency.under_60ms'' [''service:service3'']] else []) @
     [Timing ''sli.processing_time'' step3Duration
        [''service:service3'', ''operation:final_processing'']]"

definition step3_pipeline_sli :: "ext \<Rightarrow> PipelineMessage \<Rightarrow> effect list" where
  "step3_pipeline_sli x message =
     (case parseTime x (StartTime (Pipeline message)) of
        None \<Rightarrow> []
      | Some startTime \<Rightarrow>
          [Incr ''sli.pipeline.total'' [''pipeline:multi_service''],
           Incr ''sli.pipeline.success'' [''pipeline:multi_service'']] @
          (if Sub (now x 3) startTime \<le> 300 * Millisecond
           then [Incr ''sli.pipeline.under_300ms'' [''pipeline:multi_service'']] else []) @
          (if Sub (now x 3) startTime \<le> 1 * Second
           then [Incr ''sli.pipeline.under_1s'' [''pipeline:multi_service'']] else []) @
          [Timing ''sli.pipeline.duration'' (Sub (now x 3) startTime)
             [''pipeline:multi_service'']])"

definition step3_complete ::
  "ext \<Rightarrow> Message \<Rightarrow> PipelineMessage \<Rightarrow> span_context \<Rightarrow> string \<Rightarrow> int \<Rightarrow> effect list" where
  "step3_complete x msg message span correlationID step3Duration =
     [Timing ''business.pipeline.step3.duration'' step3Duration [''service:service3''],
      Incr ''business.pipeline.messages.step3'' [''service:service3''],
      Incr ''business.pipeline.completed'' [''service:service3''],
      DeleteMessage service3_queueURL (ReceiptHandle msg),
      Log Info [(''dd.trace_id'', S (traceID x span)), (''correlation.id'', S correlationID),
                (''service'', S ''service3''), (''pipeline.step'', I 3),
                (''step3_duration'', I (Milliseconds step3Duration)),
                (''pipeline_complete'', B True), (''message.data'', S (Data message)),
                (''error.type'', S (ErrorType message)),
                (''pipeline.start'', S (StartTime (Pipeline message))),
                (''pipeline.step1'', S (Step1Complete (Pipeline message))),
                (''pipeline.step2'', S (Step2Complete (Pipeline message)))]
        None ''Pipeline completed - Step3 finished'']"

text \<open>
  \<^verbatim>\<open>processStep3Message\<close>. The function has no test of \<^verbatim>\<open>message.ErrorType\<close>, and its
  branch for a body that does not decode returns after the log entry.
\<close>

definition processStep3Message :: "ext \<Rightarrow> Message \<Rightarrow> effect list \<times> outcome" where
  "processStep3Message x msg =
     (case Body msg of
        None \<Rightarrow> ([], Panicked)
      | Some body \<Rightarrow>
          (case unmarshal x body of
             Inl err \<Rightarrow> (step3_malformed err, Returned)
           | Inr message \<Rightarrow>
               (let step3Start = now x 0;
                    correlationID = correlationID_of x message;
                    carrier = carrier_of (MessageAttributes msg);
                    span = fst (step3_receive_span x correlationID carrier)
                in (snd (step3_receive_span x correlationID carrier) @
                    step3_receive_tags span correlationID @
                    step3_transit_metric x message step3Start @
                    Sleep (40 * Millisecond) #
                    step3_calculated_metrics x message @
                    step3_sli_metrics (Sub (now x 1) step3Start) @
                    step3_pipeline_sli x message @
                    step3_complete x msg message span correlationID (Sub (now x 1) step3Start) @
                    [FinishSpan span],
                    Returned))))"

fun step3_messages :: "(ext \<times> Message) list \<Rightarrow> effect list \<times> outcome" where
  "step3_messages [] = ([], Returned)"
| "step3_messages ((x, msg) # rest) =
     (case processStep3Message x msg of
        (effs, Panicked) \<Rightarrow> (effs, Panicked)
      | (effs, Returned) \<Rightarrow>
          (case step3_messages rest of (effs', out) \<Rightarrow> (effs @ effs', out)))"

text \<open>\<^verbatim>\<open>consumeFromStep2\<close>: on a receive error the body is the single statement \<^verbatim>\<open>continue\<close>.\<close>

fun consumeFromStep2 :: "receive list \<Rightarrow> effect list \<times> loop" where
  "consumeFromStep2 [] = ([], Polling)"
| "consumeFromStep2 (ReceiveError err # script) = consumeFromStep2 script"
| "consumeFromStep2 (Messages msgs # script) =
     (case step3_messages msgs of
        (effs, Panicked) \<Rightarrow> (effs, Crashed)
      | (effs, Returned) \<Rightarrow>
          (case consumeFromStep2 script of (effs', l) \<Rightarrow> (effs @ effs', l)))"

section \<open>Stage 1: \<^verbatim>\<open>service1/main.go\<close>\<close>

definition service1_queueURL :: string where
  "service1_queueURL = ''https://sqs.us-east-1.amazonaws.com/025775160945/service-queue-step1''"

text \<open>
  The HTTP request as the handler reads it: the method, the two headers through
  \<^verbatim>\<open>Header.Get\<close> (the empty string when a header is absent) and the span of the request
  context, if any.
\<close>

record request =
  Method :: string
  XCorrelationID :: string
  XInjectError :: string
  ContextSpan :: "span_context option"

definition wrapError :: "string \<Rightarrow> error \<Rightarrow> error" where
  "wrapError prefix err = GoError ''*fmt.wrapError'' (prefix @ errMsg err)"

definition step1_sqs_tags :: "span_context \<Rightarrow> span_context \<Rightarrow> string \<Rightarrow> effect list" where
  "step1_sqs_tags sendSpan sqsSpan correlationID =
     [StartSpan sendSpan,
      SetTag sendSpan ''correlation.id'' (S correlationID),
      SetTag sendSpan ''target.service'' (S ''service2''),
      SetTag sendSpan ''messaging.operation'' (S ''send_to_next_step''),
      StartSpan sqsSpan,
      SetTag sqsSpan ''span.kind'' (S ''producer''),
      SetTag sqsSpan ''messaging.system'' (S ''sqs''),
      SetTag sqsSpan ''messaging.destination'' (S ''service-queue-step1''),
      SetTag sqsSpan ''messaging.destination.kind'' (S ''queue''),
      SetTag sqsSpan ''correlation.id'' (S correlationID),
      SetTag sqsSpan ''aws.service'' (S ''sqs''),
      SetTag sqsSpan ''aws.operation'' (S ''SendMessage''),
      SetTag sqsSpan ''aws.queue.name'' (S ''service-queue-step1'')]"

text \<open>\<^verbatim>\<open>sendToService2\<close>: the effects and the returned error (\<open>None\<close> is \<^verbatim>\<open>nil\<close>).\<close>

definition sendToService2 ::
  "ext \<Rightarrow> span_context \<Rightarrow> PipelineMessage \<Rightarrow> string \<Rightarrow> effect list \<times> error option" where
  "sendToService2 x parentSpan message correlationID =
     (let sendSpan = Local ''pipeline.step1.send_to_service2'' (Some parentSpan);
          sqsSpan = Local ''sqs.send_message.service_queue_step1'' (Some sendSpan);
          msgAttrs = msgAttrs_of x sqsSpan correlationID;
          started = step1_sqs_tags sendSpan sqsSpan correlationID @
            (case snd (Inject x sqsSpan) of
               Some err \<Rightarrow>
                 [Log Warn [(''correlation.id'', S correlationID), (''service'', S ''service1''),
                            (''operation'', S ''trace_inject'')]
                    (Some err) ''Failed to inject trace context, continuing without tracing'']
             | None \<Rightarrow> []);
          finished = [FinishSpan sqsSpan, FinishSpan sendSpan]
      in case marshal x message of
           Inl err \<Rightarrow>
             (started @
              [SetTag sqsSpan ''error'' (B True),
               SetTag sqsSpan ''error.msg'' (S (errMsg err)),
               SetTag sqsSpan ''error.type'' (S (errType err)),
               SetTag sqsSpan ''error.stack'' (S (stack x 1)),
               SetTag sendSpan ''error'' (B True),
               SetTag sendSpan ''error.msg'' (S (errMsg err)),
               SetTag sendSpan ''error.stack'' (S (stack x 1))] @ finished,
              Some (wrapError ''failed to marshal pipeline message for service2: '' err))
         | Inr msgBody \<Rightarrow>
             (case sendMessage x service1_queueURL msgBody msgAttrs of
                Some err \<Rightarrow>
                  (started @ SendMessage service1_queueURL msgBody msgAttrs #
                   [SetTag sqsSpan ''error'' (B True),
                    SetTag sqsSpan ''error.msg'' (S (errMsg err)),
                    SetTag sqsSpan ''error.type'' (S (errType err)),
                    SetTag sendSpan ''error'' (B True),
                    SetTag sendSpan ''error.msg'' (S (errMsg err))] @ finished,
                   Some (wrapError
                     (''failed to send message to service2 queue [correlation_id='' @
                      correlationID @ '', queue='' @ service1_queueURL @ '']: '') err))
              | None \<Rightarrow>
                  (started @ SendMessage service1_queueURL msgBody msgAttrs #
                   [SetTag sqsSpan ''message.sent'' (B True),
                    SetTag sendSpan ''message.sent'' (B True)] @ finished,
                   None)))"

text \<open>The Work Item built by \<^verbatim>\<open>sendMessageHandler\<close>, as it is when handed to the send.\<close>

definition step1_correlationID :: "ext \<Rightarrow> request \<Rightarrow> string" where
  "step1_correlationID x r = (if XCorrelationID r = [] then uuid x else XCorrelationID r)"

definition step1_message :: "ext \<Rightarrow> request \<Rightarrow> PipelineMessage" where
  "step1_message x r =
     \<lparr>CorrelationID = step1_correlationID x r,
      Data = ''Initial data from service1'',
      Pipeline = \<lparr>StartTime = formatTime x (now x 1),
                  Step1Complete = formatTime x (now x 3),
                  Step2Complete = [],
                  CurrentStep = 1\<rparr>,
      ErrorType = (if XInjectError r = ''true'' then ''invalid_data'' else [])\<rparr>"

definition step1_inject_error :: "span_context \<Rightarrow> span_context \<Rightarrow> string \<Rightarrow> effect list" where
  "step1_inject_error pipelineSpan processingSpan correlationID =
     [Incr ''business.pipeline.errors.step1'' [''service:service1''],
      SetTag processingSpan ''error.injected'' (B True),
      SetTag processingSpan ''error'' (B True),
      SetTag pipelineSpan ''error.injected'' (B True),
      SetTag pipelineSpan ''error'' (B True),
      Log Warn [(''correlation.id'', S correlationID), (''service'', S ''service1''),
                (''pipeline.step'', I 1), (''error.type'', S ''invalid_data''),
                (''error.injected'', B True)]
        None ''Error injection activated - message marked as invalid_data'']"

definition step1_metrics :: "bool \<Rightarrow> int \<Rightarrow> effect list" where
  "step1_metrics injectError step1Duration =
     [Incr ''sli.requests.total'' [''service:service1'', ''endpoint:/send-message''],
      (if \<not> injectError
       then Incr ''sli.requests.success'' [''service:service1'', ''endpoint:/send-message'']
       else Incr ''sli.requests.error''
              [''service:service1'', ''endpoint:/send-message'', ''error_type:invalid_data''])] @
     (if step1Duration \<le> 50 * Millisecond
      then [Incr ''sli.latency.under_50ms'' [''service:service1'']] else []) @
     [Timing ''sli.response_time'' step1Duration
        [''service:service1'', ''endpoint:/send-message''],
      Timing ''business.pipeline.step1.duration'' step1Duration [''service:service1''],
      Incr ''business.pipeline.messages.step1'' [''service:service1'']]"

definition step1_send_failed ::
  "ext \<Rightarrow> span_context \<Rightarrow> span_context \<Rightarrow> string \<Rightarrow> error \<Rightarrow> effect list" where
  "step1_send_failed x pipelineSpan processingSpan correlationID err =
     [SetTag pipelineSpan ''error'' (B True),
      SetTag pipelineSpan ''error.msg'' (S (errMsg err)),
      SetTag pipelineSpan ''error.type'' (S (errType err)),
      SetTag pipelineSpan ''error.stack'' (S (stack x 0)),
      SetTag processingSpan ''error'' (B True),
      SetTag processingSpan ''error.msg'' (S (errMsg err)),
      SetTag processingSpan ''error.stack'' (S (stack x 0)),
      Log Error [(''dd.trace_id'', I (int (traceIDLower x pipelineSpan))),
                 (''correlation.id'', S correlationID), (''service'', S ''service1''),
                 (''pipeline.step'', I 1), (''operation'', S ''send_to_service2''),
                 (''queue.url'', S service1_queueURL)]
        (Some err) ''Failed to send message to Service2'',
      Incr ''sli.requests.total'' [''service:service1'', ''endpoint:/send-message''],
      Incr ''sli.requests.error''
        [''service:service1'', ''endpoint:/send-message'', ''error_type:sqs_send_failure''],
      (if errType err = ''*fmt.wrapError''
       then Incr ''business.pipeline.errors.sqs.send'' [''service:service1'']
       else Incr ''business.pipeline.errors.unknown'' [''service:service1'']),
      HttpError ''Internal server error: failed to process pipeline message'' 500]"

definition step1_completed ::
  "ext \<Rightarrow> span_context \<Rightarrow> string \<Rightarrow> bool \<Rightarrow> int \<Rightarrow> effect list" where
  "step1_completed x pipelineSpan correlationID injectError step1Duration =
     [Log Info [(''dd.trace_id'', I (int (traceIDLower x pipelineSpan))),
                (''correlation.id'', S correlationID), (''service'', S ''service1''),
                (''pipeline.step'', I 1), (''step1_duration'', I (Milliseconds step1Duration)),
                (''error.injected'', B injectError)]
        None ''Step1 completed, message sent to Service2'',
      WriteJSON [(''message'', S ''Pipeline started - Step1 completed''),
                 (''correlation_id'', S correlationID), (''step'', I 1),
                 (''duration_ms'', I (Milliseconds step1Duration))]]"

definition sendMessageHandler :: "ext \<Rightarrow> request \<Rightarrow> effect list" where
  "sendMessageHandler x r =
     (if Method r \<noteq> ''POST'' then [HttpError ''Method not allowed'' 405]
      else
        (let start = now x 0;
             pipelineSpan = Local ''pipeline.step1.process'' (ContextSpan r);
             correlationID = step1_correlationID x r;
             injectError = (XInjectError r = ''true'');
             processingSpan = Local ''pipeline.step1.business_logic'' (Some pipelineSpan);
             step1Duration = Sub (now x 2) start
         in [StartSpan pipelineSpan,
             SetTag pipelineSpan ''service.name'' (S ''service1''),
             SetTag pipelineSpan ''correlation.id'' (S correlationID),
             SetTag pipelineSpan ''pipeline.step'' (I 1),
             SetTag pipelineSpan ''pipeline.step.name'' (S ''order_processing''),
             StartSpan processingSpan,
             SetTag processingSpan ''correlation.id'' (S correlationID),
             SetTag processingSpan ''operation'' (S ''validate_and_prepare_order'')] @
            (if injectError then step1_inject_error pipelineSpan processingSpan correlationID
             else []) @
            [Sleep (20 * Millisecond), FinishSpan processingSpan] @
            step1_metrics injectError step1Duration @
            fst (sendToService2 x pipelineSpan (step1_message x r) correlationID) @
            (case snd (sendToService2 x pipelineSpan (step1_message x r) correlationID) of
               Some err \<Rightarrow> step1_send_failed x pipelineSpan processingSpan correlationID err
             | None \<Rightarrow> step1_completed x pipelineSpan correlationID injectError step1Duration) @
            [FinishSpan pipelineSpan]))"

section \<open>Reading a trace of effects\<close>

text \<open>
  What a handler did is read off its list of effects: the calls of the queue client in
  order, the bodies sent, the receipt handles deleted, an attribute of each message sent,
  the samples of a timer, the pauses, the counters and a field of the log entries.
\<close>

fun sqs_call :: "effect \<Rightarrow> bool" where
  "sqs_call (SendMessage q b a) = True"
| "sqs_call (DeleteMessage q h) = True"
| "sqs_call _ = False"

definition sqs_calls :: "effect list \<Rightarrow> effect list" where
  "sqs_calls effs = filter sqs_call effs"

fun send_of :: "effect \<Rightarrow> (string \<times> string) option" where
  "send_of (SendMessage q b a) = Some (q, b)"
| "send_of _ = None"

definition sends :: "effect list \<Rightarrow> (string \<times> string) list" where
  "sends effs = List.map_filter send_of effs"

fun delete_of :: "effect \<Rightarrow> (string \<times> string option) option" where
  "delete_of (DeleteMessage q h) = Some (q, h)"
| "delete_of _ = None"

definition deletions :: "effect list \<Rightarrow> (string \<times> string option) list" where
  "deletions effs = List.map_filter delete_of effs"

fun attr_of :: "string \<Rightarrow> effect \<Rightarrow> string option option" where
  "attr_of key (SendMessage q b a) = Some (a key)"
| "attr_of key _ = None"

definition sent_attr :: "string \<Rightarrow> effect list \<Rightarrow> string option list" where
  "sent_attr key effs = List.map_filter (attr_of key) effs"

fun timing_of :: "string \<Rightarrow> effect \<Rightarrow> int option" where
  "timing_of name (Timing n d tags) = (if n = name then Some d else None)"
| "timing_of name _ = None"

definition timing :: "string \<Rightarrow> effect list \<Rightarrow> int list" where
  "timing name effs = List.map_filter (timing_of name) effs"

fun sleep_of :: "effect \<Rightarrow> int option" where
  "sleep_of (Sleep d) = Some d"
| "sleep_of _ = None"

definition sleeps :: "effect list \<Rightarrow> int list" where
  "sleeps effs = List.map_filter sleep_of effs"

fun counter_of :: "effect \<Rightarrow> string option" where
  "counter_of (Incr name tags) = Some name"
| "counter_of _ = None"

definition counters :: "effect list \<Rightarrow> string list" where
  "counters effs = List.map_filter counter_of effs"

fun log_of :: "effect \<Rightarrow> (level \<times> string) option" where
  "log_of (Log l fs err s) = Some (l, s)"
| "log_of _ = None"

definition logs :: "effect list \<Rightarrow> (level \<times> string) list" where
  "logs effs = List.map_filter log_of effs"

fun field_of :: "string \<Rightarrow> effect \<Rightarrow> val option" where
  "field_of key (Log l fs err s) = map_of fs key"
| "field_of key _ = None"

definition logged :: "string \<Rightarrow> effect list \<Rightarrow> val list" where
  "logged key effs = List.map_filter (field_of key) effs"

section \<open>Test doubles\<close>

text \<open>
  A concrete instance of the collaborators, for evaluating the handlers: a codec given by a
  table of JSON texts as \<^verbatim>\<open>encoding/json\<close> writes them for the struct, a clock that
  advances by 50 ms per reading, timestamps in UTC, a tracer that reads and writes the key
  \<^verbatim>\<open>x-datadog-trace-id\<close>, and a queue client whose calls succeed.
\<close>

definition cfg0 :: config where
  "cfg0 = \<lparr>shardID = ''shard-1'', servicePort = ''8091''\<rparr>"

definition t0 :: int where
  "t0 = 1704067200000000000"

definition stamps :: "(string \<times> int) list" where
  "stamps =
     [(''2024-01-01T00:00:00.05Z'', t0 + 50 * Millisecond),
      (''2024-01-01T00:00:00.15Z'', t0 + 150 * Millisecond),
      (''2024-01-01T00:00:00.3Z'', t0 + 300 * Millisecond)]"

definition item1 :: PipelineMessage where
  "item1 =
     \<lparr>CorrelationID = ''c-1'', Data = ''Initial data from service1'',
      Pipeline = \<lparr>StartTime = ''2024-01-01T00:00:00.05Z'',
                  Step1Complete = ''2024-01-01T00:00:00.15Z'',
                  Step2Complete = [], CurrentStep = 1\<rparr>,
      ErrorType = []\<rparr>"

definition item2 :: PipelineMessage where
  "item2 =
     \<lparr>CorrelationID = ''c-1'', Data = ''Processed by service2: Initial data from service1'',
      Pipeline = \<lparr>StartTime = ''2024-01-01T00:00:00.05Z'',
                  Step1Complete = ''2024-01-01T00:00:00.15Z'',
                  Step2Complete = ''2024-01-01T00:00:00.3Z'', CurrentStep = 2\<rparr>,
      ErrorType = []\<rparr>"

definition json1 :: string where
  \<open>json1 = ''{"correlation_id":"c-1","data":"Initial data from service1","pipeline":{"start_time":"2024-01-01T00:00:00.05Z","step1_complete":"2024-01-01T00:00:00.15Z","current_step":1}}''\<close>

definition json2 :: string where
  \<open>json2 = ''{"correlation_id":"c-1","data":"Processed by service2: Initial data from service1","pipeline":{"start_time":"2024-01-01T00:00:00.05Z","step1_complete":"2024-01-01T00:00:00.15Z","step2_complete":"2024-01-01T00:00:00.3Z","current_step":2}}''\<close>

definition json1_invalid :: string where
  \<open>json1_invalid = ''{"correlation_id":"c-1","data":"Initial data from service1","pipeline":{"start_time":"2024-01-01T00:00:00.05Z","step1_complete":"2024-01-01T00:00:00.15Z","current_step":1},"error_type":"invalid_data"}''\<close>

definition json1_timeout :: string where
  \<open>json1_timeout = ''{"correlation_id":"c-1","data":"Initial data from service1","pipeline":{"start_time":"2024-01-01T00:00:00.05Z","step1_complete":"2024-01-01T00:00:00.15Z","current_step":1},"error_type":"timeout"}''\<close>

definition json2_timeout :: string where
  \<open>json2_timeout = ''{"correlation_id":"c-1","data":"Processed by service2: Initial data from service1","pipeline":{"start_time":"2024-01-01T00:00:00.05Z","step1_complete":"2024-01-01T00:00:00.15Z","step2_complete":"2024-01-01T00:00:00.3Z","current_step":2},"error_type":"timeout"}''\<close>

definition json1_anonymous :: string where
  \<open>json1_anonymous = ''{"correlation_id":"","data":"Initial data from service1","pipeline":{"start_time":"2024-01-01T00:00:00.05Z","step1_complete":"2024-01-01T00:00:00.15Z","current_step":1}}''\<close>

definition json2_anonymous :: string where
  \<open>json2_anonymous = ''{"correlation_id":"","data":"Processed by service2: Initial data from service1","pipeline":{"start_time":"2024-01-01T00:00:00.05Z","step1_complete":"2024-01-01T00:00:00.15Z","step2_complete":"2024-01-01T00:00:00.3Z","current_step":2}}''\<close>

definition json1_step3 :: string where
  \<open>json1_step3 = ''{"correlation_id":"c-1","data":"Initial data from service1","pipeline":{"start_time":"2024-01-01T00:00:00.05Z","step1_complete":"2024-01-01T00:00:00.15Z","current_step":3}}''\<close>

definition json2_unstarted :: string where
  \<open>json2_unstarted = ''{"correlation_id":"c-1","data":"Processed by service2: Initial data from service1","pipeline":{"start_time":"","step1_complete":"2024-01-01T00:00:00.15Z","step2_complete":"2024-01-01T00:00:00.3Z","current_step":2}}''\<close>

definition item1_invalid :: PipelineMessage where
  "item1_invalid = item1\<lparr>ErrorType := ''invalid_data''\<rparr>"

definition item1_timeout :: PipelineMessage where
  "item1_timeout = item1\<lparr>ErrorType := ''timeout''\<rparr>"

definition item2_timeout :: PipelineMessage where
  "item2_timeout = item2\<lparr>ErrorType := ''timeout''\<rparr>"

definition item1_anonymous :: PipelineMessage where
  "item1_anonymous = item1\<lparr>CorrelationID := []\<rparr>"

definition item2_anonymous :: PipelineMessage where
  "item2_anonymous = item2\<lparr>CorrelationID := []\<rparr>"

definition item1_step3 :: PipelineMessage where
  "item1_step3 = item1\<lparr>Pipeline := (Pipeline item1)\<lparr>CurrentStep := 3\<rparr>\<rparr>"

definition item2_unstarted :: PipelineMessage where
  "item2_unstarted = item2\<lparr>Pipeline := (Pipeline item2)\<lparr>StartTime := []\<rparr>\<rparr>"

definition bodies :: "(string \<times> PipelineMessage) list" where
  "bodies =
     [(json1, item1),
      (json2, item2),
      (json1_invalid, item1_invalid),
      (json1_timeout, item1_timeout),
      (json2_timeout, item2_timeout),
      (json1_anonymous, item1_anonymous),
      (json2_anonymous, item2_anonymous),
      (json1_step3, item1_step3),
      (json2_unstarted, item2_unstarted)]"

definition world :: "int \<Rightarrow> ext" where
  "world start =
     \<lparr>unmarshal = (\<lambda>b. case map_of bodies b of
                         Some m \<Rightarrow> Inr m
                       | None \<Rightarrow> Inl (GoError ''*json.SyntaxError''
                                   ''invalid character in the body'')),
      marshal = (\<lambda>m. case map_of (map (\<lambda>(b, m). (m, b)) bodies) m of
                       Some b \<Rightarrow> Inr b
                     | None \<Rightarrow> Inl (GoError ''*json.MarshalerError'' ''item not in the table'')),
      parseTime = map_of stamps,
      formatTime = (\<lambda>t. case map_of (map (\<lambda>(s, t). (t, s)) stamps) t of
                         Some s \<Rightarrow> s
                       | None \<Rightarrow> []),
      now = (\<lambda>k. start + int k * (50 * Millisecond)),
      uuid = ''123e4567-e89b-12d3-a456-426614174000'',
      Extract = (\<lambda>carrier. case carrier ''x-datadog-trace-id'' of
                          Some t \<Rightarrow> Inr (Remote t)
                        | None \<Rightarrow> Inl (GoError ''*errors.errorString''
                                    ''span context not found'')),
      Inject = (\<lambda>span. ([''x-datadog-trace-id'' \<mapsto> ''7''], None)),
      traceID = (\<lambda>span. ''7''),
      traceIDLower = (\<lambda>span. 7),
      stack = (\<lambda>k. ''goroutine 1 [running]:''),
      sendMessage = (\<lambda>q b a. None),
      deleteMessage = (\<lambda>q h. None)\<rparr>"

text \<open>The same collaborators with a tracer whose \<^verbatim>\<open>Inject\<close> fails and fills nothing.\<close>

definition world_untraced :: "int \<Rightarrow> ext" where
  "world_untraced start =
     (world start)\<lparr>Inject := (\<lambda>span. (Map.empty,
        Some (GoError ''*errors.errorString'' ''invalid span context'')))\<rparr>"

text \<open>The same collaborators with a queue client whose \<^verbatim>\<open>SendMessage\<close> fails.\<close>

definition world_unsent :: "int \<Rightarrow> ext" where
  "world_unsent start =
     (world start)\<lparr>sendMessage := (\<lambda>q b a.
        Some (GoError ''*smithy.OperationError'' ''context deadline exceeded''))\<rparr>"

text \<open>A delivered message with a body, with and without the trace attribute.\<close>

definition delivery :: "string \<Rightarrow> Message" where
  "delivery body =
     \<lparr>MessageId = Some ''m-1'', Body = Some body,
      MessageAttributes = [''correlation-id'' \<mapsto> Some ''c-1'',
                           ''x-datadog-trace-id'' \<mapsto> Some ''7''],
      ReceiptHandle = Some ''rh-1''\<rparr>"

definition delivery_untraced :: "string \<Rightarrow> Message" where
  "delivery_untraced body =
     \<lparr>MessageId = Some ''m-1'', Body = Some body,
      MessageAttributes = Map.empty,
      ReceiptHandle = Some ''rh-1''\<rparr>"

definition post :: "string \<Rightarrow> string \<Rightarrow> request" where
  "post cid flag =
     \<lparr>Method = ''POST'', XCorrelationID = cid, XInjectError = flag, ContextSpan = None\<rparr>"

text \<open>
  The receive span of stage 2 for a decoded item, the attributes stage 2 attaches to the
  message it forwards, and the span under which stage 1 sends.
\<close>

definition step2_span :: "config \<Rightarrow> ext \<Rightarrow> Message \<Rightarrow> PipelineMessage \<Rightarrow> span_context" where
  "step2_span cfg x msg m =
     fst (step2_receive_span cfg x (correlationID_of x m) (carrier_of (MessageAttributes msg)))"

definition step2_attrs ::
  "config \<Rightarrow> ext \<Rightarrow> Message \<Rightarrow> PipelineMessage \<Rightarrow> (string \<rightharpoonup> string)" where
  "step2_attrs cfg x msg m =
     msgAttrs_of x (Local ''sqs.send'' (Some (step2_span cfg x msg m))) (correlationID_of x m)"

definition step1_sqs_span :: "request \<Rightarrow> span_context" where
  "step1_sqs_span r =
     Local ''sqs.send_message.service_queue_step1''
       (Some (Local ''pipeline.step1.send_to_service2''
          (Some (Local ''pipeline.step1.process'' (ContextSpan r)))))"

text \<open>A script in which every delivered message has a body.\<close>

fun bodies_present :: "receive \<Rightarrow> bool" where
  "bodies_present (ReceiveError err) = True"
| "bodies_present (Messages msgs) = list_all (\<lambda>(x, msg). Body msg \<noteq> None) msgs"

section \<open>Properties\<close>

subsection \<open>The calls of the queue client made by each handler\<close>

lemma map_filter_append:
  "List.map_filter f (xs @ ys) = List.map_filter f xs @ List.map_filter f ys"
  by (induction xs) (simp_all split: option.splits)

lemma sqs_calls_simps [simp]:
  "sqs_calls [] = []"
  "sqs_calls (e # es) = (if sqs_call e then e # sqs_calls es else sqs_calls es)"
  "sqs_calls (xs @ ys) = sqs_calls xs @ sqs_calls ys"
  by (simp_all add: sqs_calls_def)

lemma sqs_calls_step2_blocks [simp]:
  "sqs_calls (snd (step2_receive_span cfg x cid carrier)) = []"
  "sqs_calls (step2_receive_tags cfg span cid) = []"
  "sqs_calls (step2_transit_metric x m t) = []"
  "sqs_calls (step2_success_metrics cfg d) = []"
  "sqs_calls (step2_send_tags cfg span cid) = []"
  "sqs_calls (step2_marshal_failed cfg x span' span cid err) = []"
  "sqs_calls (step2_send_failed cfg x span' span cid err) = []"
  by (simp_all add: step2_receive_span_def step2_receive_tags_def step2_transit_metric_def
      step2_success_metrics_def step2_send_tags_def step2_marshal_failed_def
      step2_send_failed_def step2_error_tags_def split: sum.splits option.splits)

lemma sqs_calls_step2_deleting [simp]:
  "sqs_calls (step2_malformed cfg x msg err) = [DeleteMessage inputQueueURL (ReceiptHandle msg)]"
  "sqs_calls (step2_short_circuit cfg x msg m span cid) =
     [DeleteMessage inputQueueURL (ReceiptHandle msg)]"
  "sqs_calls (step2_delete_processed cfg x msg span cid d) =
     [DeleteMessage inputQueueURL (ReceiptHandle msg)]"
  by (simp_all add: step2_malformed_def step2_short_circuit_def step2_delete_processed_def
      split: option.splits)

lemma sqs_calls_step2_forward:
  "sqs_calls (step2_forward cfg x msg m' span cid d) =
     (case marshal x m' of
        Inl err \<Rightarrow> []
      | Inr body \<Rightarrow>
          SendMessage outputQueueURL body (msgAttrs_of x (Local ''sqs.send'' (Some span)) cid) #
          (case sendMessage x outputQueueURL body
                  (msgAttrs_of x (Local ''sqs.send'' (Some span)) cid) of
             Some err \<Rightarrow> []
           | None \<Rightarrow> [DeleteMessage inputQueueURL (ReceiptHandle msg)]))"
  by (simp add: step2_forward_def Let_def split: sum.splits option.splits)

lemma sqs_calls_processStep2Message:
  assumes "Body msg = Some b" and "unmarshal x b = Inr m"
  shows "sqs_calls (fst (processStep2Message cfg x msg)) =
     (if ErrorType m = ''invalid_data'' then [DeleteMessage inputQueueURL (ReceiptHandle msg)]
      else case marshal x (step2_update x m) of
        Inl err \<Rightarrow> []
      | Inr body \<Rightarrow>
          SendMessage outputQueueURL body (step2_attrs cfg x msg m) #
          (case sendMessage x outputQueueURL body (step2_attrs cfg x msg m) of
             Some err \<Rightarrow> []
           | None \<Rightarrow> [DeleteMessage inputQueueURL (ReceiptHandle msg)]))"
  unfolding step2_attrs_def step2_span_def using assms
  by (simp add: processStep2Message_def Let_def sqs_calls_step2_forward)

lemma sqs_calls_step2_undecodable:
  assumes "Body msg = Some b" and "unmarshal x b = Inl err"
  shows "sqs_calls (fst (processStep2Message cfg x msg)) =
           [DeleteMessage inputQueueURL (ReceiptHandle msg)]"
  using assms by (simp add: processStep2Message_def)

lemma sqs_calls_step3_blocks [simp]:
  "sqs_calls (step3_malformed err) = []"
  "sqs_calls (snd (step3_receive_span x cid carrier)) = []"
  "sqs_calls (step3_receive_tags span cid) = []"
  "sqs_calls (step3_transit_metric x m t) = []"
  "sqs_calls (step3_calculated_metrics x m) = []"
  "sqs_calls (step3_sli_metrics d) = []"
  "sqs_calls (step3_pipeline_sli x m) = []"
  "sqs_calls (step3_complete x msg m span cid d) =
     [DeleteMessage service3_queueURL (ReceiptHandle msg)]"
  by (simp_all add: step3_malformed_def step3_receive_span_def step3_receive_tags_def
      step3_transit_metric_def step3_calculated_metrics_def step3_sli_metrics_def
      step3_pipeline_sli_def step3_complete_def split: sum.splits option.splits)

lemma sqs_calls_processStep3Message:
  assumes "Body msg = Some b"
  shows "sqs_calls (fst (processStep3Message x msg)) =
     (case unmarshal x b of
        Inl err \<Rightarrow> []
      | Inr m \<Rightarrow> [DeleteMessage service3_queueURL (ReceiptHandle msg)])"
  using assms by (simp add: processStep3Message_def Let_def split: sum.splits)

lemma sqs_calls_step1_blocks [simp]:
  "sqs_calls (step1_sqs_tags sendSpan sqsSpan cid) = []"
  "sqs_calls (step1_inject_error pipelineSpan processingSpan cid) = []"
  "sqs_calls (step1_metrics injectError d) = []"
  "sqs_calls (step1_send_failed x pipelineSpan processingSpan cid err) = []"
  "sqs_calls (step1_completed x pipelineSpan cid injectError d) = []"
  by (simp_all add: step1_sqs_tags_def step1_inject_error_def step1_metrics_def
      step1_send_failed_def step1_completed_def)

lemma sqs_calls_sendToService2:
  "sqs_calls (fst (sendToService2 x parentSpan m cid)) =
     (case marshal x m of
        Inl err \<Rightarrow> []
      | Inr body \<Rightarrow>
          [SendMessage service1_queueURL body
             (msgAttrs_of x
                (Local ''sqs.send_message.service_queue_step1''
                   (Some (Local ''pipeline.step1.send_to_service2'' (Some parentSpan))))
                cid)])"
  by (simp add: sendToService2_def Let_def split: sum.splits option.splits)

lemma sqs_calls_sendMessageHandler:
  "sqs_calls (sendMessageHandler x r) =
     (if Method r \<noteq> ''POST'' then []
      else sqs_calls (fst (sendToService2 x (Local ''pipeline.step1.process'' (ContextSpan r))
                             (step1_message x r) (step1_correlationID x r))))"
  by (simp add: sendMessageHandler_def Let_def split: option.splits)


lemma sends_sqs_calls: "sends effs = sends (sqs_calls effs)"
  by (induction effs) (auto simp: sends_def elim: sqs_call.elims)

lemma deletions_sqs_calls: "deletions effs = deletions (sqs_calls effs)"
  by (induction effs) (auto simp: deletions_def elim: sqs_call.elims)

lemma sent_attr_sqs_calls: "sent_attr key effs = sent_attr key (sqs_calls effs)"
  by (induction effs) (auto simp: sent_attr_def elim: sqs_call.elims)

lemma sends_processStep2Message:
  assumes "Body msg = Some b" and "unmarshal x b = Inr m"
  shows "sends (fst (processStep2Message cfg x msg)) =
     (if ErrorType m = ''invalid_data'' then []
      else case marshal x (step2_update x m) of
        Inl err \<Rightarrow> []
      | Inr body \<Rightarrow> [(outputQueueURL, body)])"
  by (subst sends_sqs_calls)
     (simp add: sqs_calls_processStep2Message [OF assms] sends_def split: sum.splits option.splits)

text \<open>
  Claim C3. At the forwarding stage (stage 2, for an item that decoded and is not short-circuited)
  the calls of the queue client are exactly: nothing when marshalling fails; the send alone
  when the send fails; the send followed by the deletion of the input message when the send
  succeeds. So the input message is deleted only after a successful send and is left on the
  input queue otherwise. Stage 1, the other forwarding stage, has no input queue and never
  deletes.
\<close>

theorem forwarding_deletes_only_after_send:
  assumes "Body msg = Some b" and "unmarshal x b = Inr m" and "ErrorType m \<noteq> ''invalid_data''"
  shows "sqs_calls (fst (processStep2Message cfg x msg)) =
     (case marshal x (step2_update x m) of
        Inl err \<Rightarrow> []
      | Inr body \<Rightarrow>
          SendMessage outputQueueURL body (step2_attrs cfg x msg m) #
          (case sendMessage x outputQueueURL body (step2_attrs cfg x msg m) of
             Some err \<Rightarrow> []
           | None \<Rightarrow> [DeleteMessage inputQueueURL (ReceiptHandle msg)]))
     \<and> deletions (sendMessageHandler x1 r) = []"
proof -
  have "deletions (sendMessageHandler x1 r) = []"
    by (subst deletions_sqs_calls)
       (simp add: sqs_calls_sendMessageHandler sqs_calls_sendToService2 deletions_def
          split: sum.splits)
  then show ?thesis
    using assms by (simp add: sqs_calls_processStep2Message)
qed

lemmas json_defs =
  json1_def json2_def json1_invalid_def json1_timeout_def json2_timeout_def
  json1_anonymous_def json2_anonymous_def json1_step3_def json2_unstarted_def

lemmas item_defs =
  item1_def item2_def item1_invalid_def item1_timeout_def item2_timeout_def
  item1_anonymous_def item2_anonymous_def item1_step3_def item2_unstarted_def

lemma world_decodes:
  "unmarshal (world s) json1 = Inr item1"
  "unmarshal (world s) json2 = Inr item2"
  "unmarshal (world s) json1_invalid = Inr item1_invalid"
  "unmarshal (world s) json1_timeout = Inr item1_timeout"
  "unmarshal (world s) json2_timeout = Inr item2_timeout"
  "unmarshal (world s) json1_anonymous = Inr item1_anonymous"
  "unmarshal (world s) json2_anonymous = Inr item2_anonymous"
  "unmarshal (world s) json1_step3 = Inr item1_step3"
  "unmarshal (world s) json2_unstarted = Inr item2_unstarted"
  by (simp_all add: world_def bodies_def json_defs)

lemma world_rejects:
  "unmarshal (world s) ''not json'' =
     Inl (GoError ''*json.SyntaxError'' ''invalid character in the body'')"
  by (simp add: world_def bodies_def json_defs)

lemma world_encodes:
  "marshal (world s) item1 = Inr json1"
  "marshal (world s) item2 = Inr json2"
  "marshal (world s) item2_timeout = Inr json2_timeout"
  "marshal (world s) item2_anonymous = Inr json2_anonymous"
  by (simp_all add: world_def bodies_def item_defs)

lemma world_step2_update:
  "step2_update (world (t0 + 200 * Millisecond)) item1 = item2"
  "step2_update (world (t0 + 200 * Millisecond)) item1_timeout = item2_timeout"
  "step2_update (world (t0 + 200 * Millisecond)) item1_anonymous = item2_anonymous"
  "step2_update (world (t0 + 200 * Millisecond)) item1_step3 = item2"
  by (simp_all add: step2_update_def world_def item_defs stamps_def t0_def Millisecond_def)

lemma world_calls_succeed:
  "sendMessage (world s) q body a = None"
  "deleteMessage (world s) q h = None"
  by (simp_all add: world_def)

lemma delivery_simps:
  "Body (delivery body) = Some body"
  "ReceiptHandle (delivery body) = Some ''rh-1''"
  "Body (delivery_untraced body) = Some body"
  "ReceiptHandle (delivery_untraced body) = Some ''rh-1''"
  by (simp_all add: delivery_def delivery_untraced_def)

lemma world_unsent_like_world:
  "unmarshal (world_unsent s) = unmarshal (world s)"
  "marshal (world_unsent s) = marshal (world s)"
  "step2_update (world_unsent s) m = step2_update (world s) m"
  "sendMessage (world_unsent s) q body a =
     Some (GoError ''*smithy.OperationError'' ''context deadline exceeded'')"
  by (simp_all add: world_unsent_def step2_update_def)

theorem forwarding_deletes_only_after_send_witness:
  "Body (delivery json1) = Some json1
   \<and> unmarshal (world (t0 + 200 * Millisecond)) json1 = Inr item1
   \<and> unmarshal (world_unsent (t0 + 200 * Millisecond)) json1 = Inr item1
   \<and> ErrorType item1 \<noteq> ''invalid_data''
   \<and> sqs_calls (fst (processStep2Message cfg0 (world (t0 + 200 * Millisecond)) (delivery json1))) =
       [SendMessage outputQueueURL json2
          (step2_attrs cfg0 (world (t0 + 200 * Millisecond)) (delivery json1) item1),
        DeleteMessage inputQueueURL (Some ''rh-1'')]
   \<and> sqs_calls (fst (processStep2Message cfg0 (world_unsent (t0 + 200 * Millisecond))
                        (delivery json1))) =
       [SendMessage outputQueueURL json2
          (step2_attrs cfg0 (world_unsent (t0 + 200 * Millisecond)) (delivery json1) item1)]"
proof -
  have b: "Body (delivery json1) = Some json1"
    by (simp add: delivery_simps)
  have u: "unmarshal (world (t0 + 200 * Millisecond)) json1 = Inr item1"
    by (rule world_decodes)
  have u': "unmarshal (world_unsent (t0 + 200 * Millisecond)) json1 = Inr item1"
    by (simp add: world_unsent_like_world world_decodes)
  have e: "ErrorType item1 \<noteq> ''invalid_data''"
    by (simp add: item1_def)
  show ?thesis
    using forwarding_deletes_only_after_send [OF b u e, of cfg0]
      forwarding_deletes_only_after_send [OF b u' e, of cfg0]
    by (simp add: b u e delivery_simps world_calls_succeed world_step2_update world_encodes
        world_unsent_like_world world_decodes)
qed

subsection \<open>Pauses and counters of each handler\<close>

lemma sleeps_simps [simp]:
  "sleeps [] = []"
  "sleeps (e # es) = (case sleep_of e of None \<Rightarrow> sleeps es | Some d \<Rightarrow> d # sleeps es)"
  "sleeps (xs @ ys) = sleeps xs @ sleeps ys"
  by (simp_all add: sleeps_def map_filter_append split: option.splits)

lemma counters_simps [simp]:
  "counters [] = []"
  "counters (e # es) = (case counter_of e of None \<Rightarrow> counters es | Some n \<Rightarrow> n # counters es)"
  "counters (xs @ ys) = counters xs @ counters ys"
  by (simp_all add: counters_def map_filter_append split: option.splits)

lemmas step2_block_defs =
  step2_malformed_def step2_receive_span_def step2_receive_tags_def step2_transit_metric_def
  step2_short_circuit_def step2_success_metrics_def step2_send_tags_def step2_error_tags_def
  step2_marshal_failed_def step2_send_failed_def step2_delete_processed_def step2_forward_def

lemmas step3_block_defs =
  step3_malformed_def step3_receive_span_def step3_receive_tags_def step3_transit_metric_def
  step3_calculated_metrics_def step3_sli_metrics_def step3_pipeline_sli_def step3_complete_def

lemma sleeps_step2_blocks [simp]:
  "sleeps (snd (step2_receive_span cfg x cid carrier)) = []"
  "sleeps (step2_receive_tags cfg span cid) = []"
  "sleeps (step2_transit_metric x m t) = []"
  "sleeps (step2_short_circuit cfg x msg m span cid) = []"
  "sleeps (step2_success_metrics cfg d) = []"
  "sleeps (step2_forward cfg x msg m span cid d) = []"
  by (simp_all add: step2_block_defs Let_def split: sum.splits option.splits)


lemma sleeps_step3_blocks [simp]:
  "sleeps (snd (step3_receive_span x cid carrier)) = []"
  "sleeps (step3_receive_tags span cid) = []"
  "sleeps (step3_transit_metric x m t) = []"
  "sleeps (step3_calculated_metrics x m) = []"
  "sleeps (step3_sli_metrics d) = []"
  "sleeps (step3_pipeline_sli x m) = []"
  "sleeps (step3_complete x msg m span cid d) = []"
  by (simp_all add: step3_block_defs split: sum.splits option.splits)

lemma sleeps_processStep3Message:
  assumes "Body msg = Some b" and "unmarshal x b = Inr m"
  shows "sleeps (fst (processStep3Message x msg)) = [40 * Millisecond]"
  using assms by (simp add: processStep3Message_def Let_def)

lemma counters_step2_blocks [simp]:
  "counters (snd (step2_receive_span cfg x cid carrier)) = []"
  "counters (step2_receive_tags cfg span cid) = []"
  "counters (step2_transit_metric x m t) = []"
  "counters (step2_short_circuit cfg x msg m span cid) =
     [''business.pipeline.errors.step2'', ''sli.processing.total'', ''sli.processing.error'',
      ''business.pipeline.failed.step2'']"
  by (simp_all add: step2_block_defs split: sum.splits option.splits)

lemma counters_step3_blocks [simp]:
  "counters (snd (step3_receive_span x cid carrier)) = []"
  "counters (step3_receive_tags span cid) = []"
  "counters (step3_transit_metric x m t) = []"
  "counters (step3_calculated_metrics x m) = []"
  "counters (step3_complete x msg m span cid d) =
     [''business.pipeline.messages.step3'', ''business.pipeline.completed'']"
  by (simp_all add: step3_block_defs split: sum.splits option.splits)



subsection \<open>Inherited errors\<close>




subsection \<open>Bodies and attributes sent by each handler\<close>

lemma sends_sendMessageHandler:
  "sends (sendMessageHandler x r) =
     (if Method r \<noteq> ''POST'' then []
      else case marshal x (step1_message x r) of
        Inl err \<Rightarrow> []
      | Inr body \<Rightarrow> [(service1_queueURL, body)])"
  by (subst sends_sqs_calls)
     (simp add: sqs_calls_sendMessageHandler sqs_calls_sendToService2 sends_def
        split: sum.splits)

lemma sent_attr_processStep2Message:
  assumes "Body msg = Some b" and "unmarshal x b = Inr m"
  shows "sent_attr key (fst (processStep2Message cfg x msg)) =
     (if ErrorType m = ''invalid_data'' then []
      else case marshal x (step2_update x m) of
        Inl err \<Rightarrow> []
      | Inr body \<Rightarrow> [step2_attrs cfg x msg m key])"
  by (subst sent_attr_sqs_calls)
     (simp add: sqs_calls_processStep2Message [OF assms] sent_attr_def
        split: sum.splits option.splits)

lemma sent_attr_sendMessageHandler:
  "sent_attr key (sendMessageHandler x r) =
     (if Method r \<noteq> ''POST'' then []
      else case marshal x (step1_message x r) of
        Inl err \<Rightarrow> []
      | Inr body \<Rightarrow>
          [msgAttrs_of x
             (Local ''sqs.send_message.service_queue_step1''
                (Some (Local ''pipeline.step1.send_to_service2''
                   (Some (Local ''pipeline.step1.process'' (ContextSpan r))))))
             (step1_correlationID x r) key])"
  by (subst sent_attr_sqs_calls)
     (simp add: sqs_calls_sendMessageHandler sqs_calls_sendToService2 sent_attr_def
        split: sum.splits)

lemma msgAttrs_of_correlation_id:
  "fst (Inject x span) ''correlation-id'' = None \<Longrightarrow>
   msgAttrs_of x span cid ''correlation-id'' = Some cid"
  by (simp add: msgAttrs_of_def map_add_def)

lemma step2_update_frame:
  "CorrelationID (step2_update x m) = CorrelationID m"
  "StartTime (Pipeline (step2_update x m)) = StartTime (Pipeline m)"
  "Step1Complete (Pipeline (step2_update x m)) = Step1Complete (Pipeline m)"
  "ErrorType (step2_update x m) = ErrorType m"
  "CurrentStep (Pipeline (step2_update x m)) = 2"
  by (simp_all add: step2_update_def)

lemma item_fields:
  "ErrorType item1 = []" "ErrorType item2 = []"
  "ErrorType item1_invalid = ''invalid_data''"
  "ErrorType item1_timeout = ''timeout''" "ErrorType item2_timeout = ''timeout''"
  "ErrorType item1_anonymous = []" "ErrorType item2_anonymous = []"
  "ErrorType item1_step3 = []" "ErrorType item2_unstarted = []"
  "CorrelationID item1 = ''c-1''" "CorrelationID item2 = ''c-1''"
  "CorrelationID item1_anonymous = []" "CorrelationID item2_anonymous = []"
  "CurrentStep (Pipeline item1) = 1" "CurrentStep (Pipeline item2) = 2"
  "CurrentStep (Pipeline item1_step3) = 3"
  "StartTime (Pipeline item1) = ''2024-01-01T00:00:00.05Z''"
  "StartTime (Pipeline item2) = ''2024-01-01T00:00:00.05Z''"
  "Step1Complete (Pipeline item1) = ''2024-01-01T00:00:00.15Z''"
  "Step1Complete (Pipeline item2) = ''2024-01-01T00:00:00.15Z''"
  "Step2Complete (Pipeline item2_timeout) = ''2024-01-01T00:00:00.3Z''"
  "StartTime (Pipeline item2_unstarted) = []"
  "Step1Complete (Pipeline item2_unstarted) = ''2024-01-01T00:00:00.15Z''"
  "Step2Complete (Pipeline item2_unstarted) = ''2024-01-01T00:00:00.3Z''"
  by (simp_all add: item_defs)

subsection \<open>What stage 2 changes in the item it forwards\<close>

text \<open>
  Claim C10. Every body that stage 2 sends goes to the step-2 queue and is the encoding of the
  received item with \<^verbatim>\<open>Data\<close>, \<^verbatim>\<open>step2_complete\<close> and \<^verbatim>\<open>current_step\<close> assigned and
  nothing else: \<^verbatim>\<open>correlation_id\<close>, \<^verbatim>\<open>start_time\<close>, \<^verbatim>\<open>step1_complete\<close> and
  \<^verbatim>\<open>error_type\<close> are those of the received item.
\<close>

theorem stage2_forward_frame:
  assumes "Body msg = Some b" and "unmarshal x b = Inr m"
    and "(q, body) \<in> set (sends (fst (processStep2Message cfg x msg)))"
  shows "q = outputQueueURL
     \<and> marshal x (step2_update x m) = Inr body
     \<and> step2_update x m =
         m\<lparr>Data := ''Processed by service2: '' @ Data m,
           Pipeline := (Pipeline m)\<lparr>Step2Complete := Step2Complete (Pipeline (step2_update x m)),
                                     CurrentStep := 2\<rparr>\<rparr>
     \<and> CorrelationID (step2_update x m) = CorrelationID m
     \<and> StartTime (Pipeline (step2_update x m)) = StartTime (Pipeline m)
     \<and> Step1Complete (Pipeline (step2_update x m)) = Step1Complete (Pipeline m)
     \<and> ErrorType (step2_update x m) = ErrorType m"
proof -
  have "q = outputQueueURL \<and> marshal x (step2_update x m) = Inr body"
    using assms(3)
    by (simp add: sends_processStep2Message [OF assms(1,2)] split: if_splits sum.splits)
  then show ?thesis
    by (simp add: step2_update_def)
qed

theorem stage2_forward_frame_witness:
  "Body (delivery json1) = Some json1
   \<and> unmarshal (world (t0 + 200 * Millisecond)) json1 = Inr item1
   \<and> (outputQueueURL, json2) \<in>
       set (sends (fst (processStep2Message cfg0 (world (t0 + 200 * Millisecond)) (delivery json1))))
   \<and> marshal (world (t0 + 200 * Millisecond)) item2 = Inr json2
   \<and> CorrelationID item2 = CorrelationID item1
   \<and> StartTime (Pipeline item2) = StartTime (Pipeline item1)
   \<and> Step1Complete (Pipeline item2) = Step1Complete (Pipeline item1)
   \<and> ErrorType item2 = ErrorType item1"
proof -
  have b: "Body (delivery json1) = Some json1"
    by (simp add: delivery_simps)
  have u: "unmarshal (world (t0 + 200 * Millisecond)) json1 = Inr item1"
    by (rule world_decodes)
  have s: "(outputQueueURL, json2) \<in>
       set (sends (fst (processStep2Message cfg0 (world (t0 + 200 * Millisecond)) (delivery json1))))"
    by (simp add: sends_processStep2Message [OF b u] world_step2_update world_encodes item_fields)
  show ?thesis
    using stage2_forward_frame [OF b u s]
    by (simp add: b u s world_step2_update item_fields)
qed

subsection \<open>The step counter\<close>

text \<open>
  Claim C8, as amended. Stage 1 creates the item with \<^verbatim>\<open>current_step\<close> 1 and stage 2
  assigns the constant 2 to the item it forwards; the value stage 2 writes is therefore not
  smaller than the value received whenever that value is at most 2, as it is for every item
  stage 1 produced.
\<close>

theorem current_step_written_by_stages:
  assumes "Body msg = Some b" and "unmarshal x b = Inr m"
    and "(q, body) \<in> set (sends (fst (processStep2Message cfg x msg)))"
    and "CurrentStep (Pipeline m) \<le> 2"
  shows "marshal x (step2_update x m) = Inr body
     \<and> CurrentStep (Pipeline (step2_update x m)) = 2
     \<and> CurrentStep (Pipeline m) \<le> CurrentStep (Pipeline (step2_update x m))
     \<and> CurrentStep (Pipeline (step1_message x1 r)) = 1"
proof -
  have "marshal x (step2_update x m) = Inr body"
    using assms(3)
    by (simp add: sends_processStep2Message [OF assms(1,2)] split: if_splits sum.splits)
  then show ?thesis
    using assms(4) by (simp add: step2_update_frame step1_message_def)
qed

theorem current_step_written_by_stages_witness:
  "Body (delivery json1) = Some json1
   \<and> unmarshal (world (t0 + 200 * Millisecond)) json1 = Inr item1
   \<and> (outputQueueURL, json2) \<in>
       set (sends (fst (processStep2Message cfg0 (world (t0 + 200 * Millisecond)) (delivery json1))))
   \<and> CurrentStep (Pipeline item1) = 1
   \<and> CurrentStep (Pipeline item2) = 2"
proof -
  have b: "Body (delivery json1) = Some json1"
    by (simp add: delivery_simps)
  have u: "unmarshal (world (t0 + 200 * Millisecond)) json1 = Inr item1"
    by (rule world_decodes)
  have s: "(outputQueueURL, json2) \<in>
       set (sends (fst (processStep2Message cfg0 (world (t0 + 200 * Millisecond)) (delivery json1))))"
    by (simp add: sends_processStep2Message [OF b u] world_step2_update world_encodes item_fields)
  have c: "CurrentStep (Pipeline item1) \<le> 2" "CurrentStep (Pipeline item1) = 1"
    by (simp_all add: item_fields)
  show ?thesis
    using current_step_written_by_stages [OF b u s c(1)]
    by (simp add: b u s c world_step2_update item_fields)
qed

text \<open>
  Without the bound the claim fails: stage 2 does not read the received value. An item that
  arrives with \<^verbatim>\<open>current_step\<close> 3 is forwarded with \<^verbatim>\<open>current_step\<close> 2.
\<close>

theorem current_step_decreases_counterexample:
  "unmarshal (world (t0 + 200 * Millisecond)) json1_step3 = Inr item1_step3
   \<and> CurrentStep (Pipeline item1_step3) = 3
   \<and> sends (fst (processStep2Message cfg0 (world (t0 + 200 * Millisecond))
                    (delivery json1_step3))) = [(outputQueueURL, json2)]
   \<and> unmarshal (world (t0 + 400 * Millisecond)) json2 = Inr item2
   \<and> CurrentStep (Pipeline item2) = 2"
  by (simp add: world_decodes world_encodes world_step2_update
      sends_processStep2Message [OF delivery_simps(1) world_decodes(8)] item_fields)

subsection \<open>A missing correlation id\<close>

text \<open>
  Claim C7, as amended. Stage 1 always gives the item a non-empty \<^verbatim>\<open>correlation_id\<close> (the
  header, or a generated UUID) and sends it as the \<^verbatim>\<open>correlation-id\<close> attribute too. When
  stage 2 receives an item, the id it works with is the item's, or a generated UUID when the
  item's is empty; it is never empty, and the forwarded message carries it as the
  \<^verbatim>\<open>correlation-id\<close> attribute. This assumes that the UUID generator returns a non-empty
  string and that the tracer writes no carrier entry under the key \<^verbatim>\<open>correlation-id\<close>.
\<close>

theorem correlation_id_generated_when_missing:
  assumes "uuid x1 \<noteq> []" and "Method r = ''POST''"
    and "marshal x1 (step1_message x1 r) = Inr body1"
    and "\<forall>span. fst (Inject x1 span) ''correlation-id'' = None"
    and "uuid x \<noteq> []" and "Body msg = Some b" and "unmarshal x b = Inr m"
    and "ErrorType m \<noteq> ''invalid_data''"
    and "marshal x (step2_update x m) = Inr body"
    and "\<forall>span. fst (Inject x span) ''correlation-id'' = None"
  shows "CorrelationID (step1_message x1 r) \<noteq> []
     \<and> sends (sendMessageHandler x1 r) = [(service1_queueURL, body1)]
     \<and> sent_attr ''correlation-id'' (sendMessageHandler x1 r) =
         [Some (CorrelationID (step1_message x1 r))]
     \<and> correlationID_of x m = (if CorrelationID m = [] then uuid x else CorrelationID m)
     \<and> correlationID_of x m \<noteq> []
     \<and> sends (fst (processStep2Message cfg x msg)) = [(outputQueueURL, body)]
     \<and> sent_attr ''correlation-id'' (fst (processStep2Message cfg x msg)) =
         [Some (correlationID_of x m)]"
proof -
  have 1: "CorrelationID (step1_message x1 r) \<noteq> []"
    using assms(1) by (simp add: step1_message_def step1_correlationID_def)
  have 2: "sends (sendMessageHandler x1 r) = [(service1_queueURL, body1)]"
    using assms(2,3) by (simp add: sends_sendMessageHandler)
  have 3: "sent_attr ''correlation-id'' (sendMessageHandler x1 r) =
         [Some (CorrelationID (step1_message x1 r))]"
    using assms(2,3,4)
    by (simp add: sent_attr_sendMessageHandler msgAttrs_of_correlation_id step1_message_def)
  have 4: "correlationID_of x m \<noteq> []"
    using assms(5) by (simp add: correlationID_of_def)
  have 5: "sends (fst (processStep2Message cfg x msg)) = [(outputQueueURL, body)]"
    using assms(8,9) by (simp add: sends_processStep2Message [OF assms(6,7)])
  have 6: "sent_attr ''correlation-id'' (fst (processStep2Message cfg x msg)) =
         [Some (correlationID_of x m)]"
    using assms(8,9,10)
    by (simp add: sent_attr_processStep2Message [OF assms(6,7)] step2_attrs_def
        msgAttrs_of_correlation_id)
  show ?thesis
    using 1 2 3 4 5 6 by (simp add: correlationID_of_def)
qed

lemma world_injects:
  "fst (Inject (world s) span) ''correlation-id'' = None"
  "snd (Inject (world s) span) = None"
  by (simp_all add: world_def)

lemma world_step1_message:
  "step1_message (world t0) (post ''c-1'' []) = item1"
  by (simp add: step1_message_def step1_correlationID_def world_def post_def item1_def
      stamps_def t0_def Millisecond_def)

theorem correlation_id_generated_when_missing_witness:
  "uuid (world t0) \<noteq> []
   \<and> Method (post ''c-1'' []) = ''POST''
   \<and> marshal (world t0) (step1_message (world t0) (post ''c-1'' [])) = Inr json1
   \<and> (\<forall>span. fst (Inject (world t0) span) ''correlation-id'' = None)
   \<and> uuid (world (t0 + 200 * Millisecond)) \<noteq> []
   \<and> Body (delivery_untraced json1_anonymous) = Some json1_anonymous
   \<and> unmarshal (world (t0 + 200 * Millisecond)) json1_anonymous = Inr item1_anonymous
   \<and> ErrorType item1_anonymous \<noteq> ''invalid_data''
   \<and> marshal (world (t0 + 200 * Millisecond))
        (step2_update (world (t0 + 200 * Millisecond)) item1_anonymous) = Inr json2_anonymous
   \<and> (\<forall>span. fst (Inject (world (t0 + 200 * Millisecond)) span) ''correlation-id'' = None)
   \<and> CorrelationID item1_anonymous = []
   \<and> sent_attr ''correlation-id''
        (fst (processStep2Message cfg0 (world (t0 + 200 * Millisecond))
                (delivery_untraced json1_anonymous))) =
       [Some ''123e4567-e89b-12d3-a456-426614174000'']"
proof -
  have h1: "uuid (world t0) \<noteq> []" "uuid (world (t0 + 200 * Millisecond)) \<noteq> []"
    by (simp_all add: world_def)
  have h2: "Method (post ''c-1'' []) = ''POST''"
    by (simp add: post_def)
  have h3: "marshal (world t0) (step1_message (world t0) (post ''c-1'' [])) = Inr json1"
    by (simp add: world_step1_message world_encodes)
  have h4: "\<forall>span. fst (Inject (world t0) span) ''correlation-id'' = None"
    "\<forall>span. fst (Inject (world (t0 + 200 * Millisecond)) span) ''correlation-id'' = None"
    by (simp_all add: world_injects)
  have h6: "Body (delivery_untraced json1_anonymous) = Some json1_anonymous"
    by (simp add: delivery_simps)
  have h7: "unmarshal (world (t0 + 200 * Millisecond)) json1_anonymous = Inr item1_anonymous"
    by (rule world_decodes)
  have h8: "ErrorType item1_anonymous \<noteq> ''invalid_data''" "CorrelationID item1_anonymous = []"
    by (simp_all add: item_fields)
  have h9: "marshal (world (t0 + 200 * Millisecond))
        (step2_update (world (t0 + 200 * Millisecond)) item1_anonymous) = Inr json2_anonymous"
    by (simp add: world_step2_update world_encodes)
  have u: "uuid (world (t0 + 200 * Millisecond)) = ''123e4567-e89b-12d3-a456-426614174000''"
    by (simp add: world_def)
  show ?thesis
    using correlation_id_generated_when_missing
      [OF h1(1) h2 h3 h4(1) h1(2) h6 h7 h8(1) h9 h4(2), of cfg0]
    by (simp add: h1 h2 h3 h4 h6 h7 h8 h9 u correlationID_of_def)
qed

text \<open>
  The claim as stated fails for the Work Item itself: the generated id is kept in a local
  variable and the message is not assigned to, so an item received with an empty
  \<^verbatim>\<open>correlation_id\<close> crosses the next boundary with the field still empty.
\<close>

theorem correlation_id_empty_across_boundary_counterexample:
  "unmarshal (world (t0 + 200 * Millisecond)) json1_anonymous = Inr item1_anonymous
   \<and> CorrelationID item1_anonymous = []
   \<and> sends (fst (processStep2Message cfg0 (world (t0 + 200 * Millisecond))
                    (delivery_untraced json1_anonymous))) = [(outputQueueURL, json2_anonymous)]
   \<and> unmarshal (world (t0 + 400 * Millisecond)) json2_anonymous = Inr item2_anonymous
   \<and> CorrelationID item2_anonymous = []"
  by (simp add: world_decodes world_encodes world_step2_update
      sends_processStep2Message [OF delivery_simps(3) world_decodes(6)] item_fields)

subsection \<open>Derived metrics\<close>

lemma timing_simps [simp]:
  "timing name [] = []"
  "timing name (e # es) =
     (case timing_of name e of None \<Rightarrow> timing name es | Some d \<Rightarrow> d # timing name es)"
  "timing name (xs @ ys) = timing name xs @ timing name ys"
  by (simp_all add: timing_def map_filter_append split: option.splits)

lemma logged_simps [simp]:
  "logged key [] = []"
  "logged key (e # es) =
     (case field_of key e of None \<Rightarrow> logged key es | Some v \<Rightarrow> v # logged key es)"
  "logged key (xs @ ys) = logged key xs @ logged key ys"
  by (simp_all add: logged_def map_filter_append split: option.splits)

lemma timing_untimed_blocks [simp]:
  "timing name (snd (step2_receive_span cfg x cid carrier)) = []"
  "timing name (step2_receive_tags cfg span cid) = []"
  "timing name (step2_short_circuit cfg x msg m span cid) = []"
  "timing name (step2_forward cfg x msg m span cid d) = []"
  "timing name (snd (step3_receive_span x cid carrier)) = []"
  "timing name (step3_receive_tags span cid) = []"
  by (simp_all add: step2_block_defs step3_block_defs  Let_def split: sum.splits option.splits)

lemma timing_processStep3Message:
  assumes "Body msg = Some b" and "unmarshal x b = Inr m"
  shows "timing name (fst (processStep3Message x msg)) =
     timing name (step3_transit_metric x m (now x 0)) @
     timing name (step3_calculated_metrics x m) @
     timing name (step3_sli_metrics (Sub (now x 1) (now x 0))) @
     timing name (step3_pipeline_sli x m) @
     timing name (step3_complete x msg m
        (fst (step3_receive_span x (correlationID_of x m) (carrier_of (MessageAttributes msg))))
        (correlationID_of x m) (Sub (now x 1) (now x 0)))"
  using assms by (simp add: processStep3Message_def Let_def)

lemma timing_processStep2Message:
  assumes "Body msg = Some b" and "unmarshal x b = Inr m"
  shows "timing name (fst (processStep2Message cfg x msg)) =
     timing name (step2_transit_metric x m (now x 0)) @
     (if ErrorType m = ''invalid_data'' then []
      else timing name (step2_success_metrics cfg (Sub (now x 1) (now x 0))))"
  using assms by (simp add: processStep2Message_def Let_def)

lemma deletions_processStep3Message:
  assumes "Body msg = Some b" and "unmarshal x b = Inr m"
  shows "deletions (fst (processStep3Message x msg)) = [(service3_queueURL, ReceiptHandle msg)]"
  by (subst deletions_sqs_calls)
     (simp add: sqs_calls_processStep3Message [OF assms(1)] assms(2) deletions_def)

lemma outcome_processStep3Message:
  assumes "Body msg = Some b"
  shows "snd (processStep3Message x msg) = Returned"
  using assms by (simp add: processStep3Message_def Let_def split: sum.splits)

lemma outcome_processStep2Message:
  assumes "Body msg = Some b"
  shows "snd (processStep2Message cfg x msg) = Returned"
  using assms by (simp add: processStep2Message_def Let_def split: sum.splits)

lemma timing_step2_transit:
  assumes "Body msg = Some b" and "unmarshal x b = Inr m"
  shows "timing ''business.pipeline.step1_to_step2.duration'' (fst (processStep2Message cfg x msg)) =
       (case parseTime x (Step1Complete (Pipeline m)) of
          None \<Rightarrow> []
        | Some step1Time \<Rightarrow> [Sub (now x 0) step1Time])"
  by (simp add: timing_processStep2Message [OF assms] step2_transit_metric_def
      step2_success_metrics_def split: option.splits)

lemma timing_step3_metrics:
  assumes "Body msg = Some b" and "unmarshal x b = Inr m"
  shows "timing ''business.pipeline.step2_to_step3.duration'' (fst (processStep3Message x msg)) =
       (case parseTime x (Step2Complete (Pipeline m)) of
          None \<Rightarrow> []
        | Some step2Time \<Rightarrow> [Sub (now x 0) step2Time])"
    and "timing ''business.pipeline.end_to_end.duration'' (fst (processStep3Message x msg)) =
       (case parseTime x (StartTime (Pipeline m)) of
          None \<Rightarrow> []
        | Some startTime \<Rightarrow> [Sub (now x 2) startTime])"
    and "timing ''sli.pipeline.duration'' (fst (processStep3Message x msg)) =
       (case parseTime x (StartTime (Pipeline m)) of
          None \<Rightarrow> []
        | Some startTime \<Rightarrow> [Sub (now x 3) startTime])"
    and "timing ''business.pipeline.step1.calculated_duration'' (fst (processStep3Message x msg)) =
       (case parseTime x (StartTime (Pipeline m)) of
          None \<Rightarrow> []
        | Some startTime \<Rightarrow>
            (case parseTime x (Step1Complete (Pipeline m)) of
               None \<Rightarrow> []
             | Some step1Time \<Rightarrow> [Sub step1Time startTime]))"
    and "timing ''business.pipeline.step2.calculated_duration'' (fst (processStep3Message x msg)) =
       (case parseTime x (StartTime (Pipeline m)) of
          None \<Rightarrow> []
        | Some startTime \<Rightarrow>
            (case parseTime x (Step1Complete (Pipeline m)) of
               None \<Rightarrow> []
             | Some step1Time \<Rightarrow>
                 (case parseTime x (Step2Complete (Pipeline m)) of
                    None \<Rightarrow> []
                  | Some step2Time \<Rightarrow> [Sub step2Time step1Time])))"
    and "timing ''business.pipeline.step3.duration'' (fst (processStep3Message x msg)) =
         [Sub (now x 1) (now x 0)]"
  by (simp_all add: timing_processStep3Message [OF assms] step3_block_defs split: option.splits)

lemma world_parses:
  "parseTime (world s) [] = None"
  "parseTime (world s) ''2024-01-01T00:00:00.05Z'' = Some (t0 + 50 * Millisecond)"
  "parseTime (world s) ''2024-01-01T00:00:00.15Z'' = Some (t0 + 150 * Millisecond)"
  "parseTime (world s) ''2024-01-01T00:00:00.3Z'' = Some (t0 + 300 * Millisecond)"
  by (simp_all add: world_def stamps_def)

lemma world_now:
  "now (world s) k = s + int k * (50 * Millisecond)"
  by (simp add: world_def)

lemma Sub_small:
  "- (2 ^ 63) \<le> t - u \<Longrightarrow> t - u \<le> 2 ^ 63 - 1 \<Longrightarrow> Sub t u = t - u"
  by (simp add: Sub_def saturate_def)

text \<open>
  Claim C9, as amended. Each derived duration is emitted exactly when the timestamps its
  guards parse are well-formed, and its value is then what \<^verbatim>\<open>Time.Sub\<close> returns for the
  parsed values, never a default: their difference in nanoseconds when it fits a signed
  64-bit \<^verbatim>\<open>time.Duration\<close>, and otherwise the least or the greatest duration (a
  \<^verbatim>\<open>start_time\<close> centuries away gives a saturated sample, not the difference).
  \<^verbatim>\<open>step1_to_step2\<close> needs \<^verbatim>\<open>step1_complete\<close>; \<^verbatim>\<open>step2_to_step3\<close> needs
  \<^verbatim>\<open>step2_complete\<close>; the end-to-end durations need \<^verbatim>\<open>start_time\<close>; the calculated
  step-1 duration needs \<^verbatim>\<open>start_time\<close> and \<^verbatim>\<open>step1_complete\<close>; the calculated step-2
  duration needs \<^verbatim>\<open>start_time\<close>, \<^verbatim>\<open>step1_complete\<close> and \<^verbatim>\<open>step2_complete\<close>. A
  timestamp that does not parse fails no stage: the handlers return, stage 3 still emits
  its own duration and deletes the message.
\<close>

theorem derived_metrics_guards:
  assumes "Body msg = Some b" and "unmarshal x b = Inr m"
  shows "timing ''business.pipeline.step1_to_step2.duration'' (fst (processStep2Message cfg x msg)) =
       (case parseTime x (Step1Complete (Pipeline m)) of
          None \<Rightarrow> []
        | Some step1Time \<Rightarrow> [Sub (now x 0) step1Time])
     \<and> timing ''business.pipeline.step2_to_step3.duration'' (fst (processStep3Message x msg)) =
       (case parseTime x (Step2Complete (Pipeline m)) of
          None \<Rightarrow> []
        | Some step2Time \<Rightarrow> [Sub (now x 0) step2Time])
     \<and> timing ''business.pipeline.end_to_end.duration'' (fst (processStep3Message x msg)) =
       (case parseTime x (StartTime (Pipeline m)) of
          None \<Rightarrow> []
        | Some startTime \<Rightarrow> [Sub (now x 2) startTime])
     \<and> timing ''sli.pipeline.duration'' (fst (processStep3Message x msg)) =
       (case parseTime x (StartTime (Pipeline m)) of
          None \<Rightarrow> []
        | Some startTime \<Rightarrow> [Sub (now x 3) startTime])
     \<and> timing ''business.pipeline.step1.calculated_duration'' (fst (processStep3Message x msg)) =
       (case parseTime x (StartTime (Pipeline m)) of
          None \<Rightarrow> []
        | Some startTime \<Rightarrow>
            (case parseTime x (Step1Complete (Pipeline m)) of
               None \<Rightarrow> []
             | Some step1Time \<Rightarrow> [Sub step1Time startTime]))
     \<and> timing ''business.pipeline.step2.calculated_duration'' (fst (processStep3Message x msg)) =
       (case parseTime x (StartTime (Pipeline m)) of
          None \<Rightarrow> []
        | Some startTime \<Rightarrow>
            (case parseTime x (Step1Complete (Pipeline m)) of
               None \<Rightarrow> []
             | Some step1Time \<Rightarrow>
                 (case parseTime x (Step2Complete (Pipeline m)) of
                    None \<Rightarrow> []
                  | Some step2Time \<Rightarrow> [Sub step2Time step1Time])))
     \<and> timing ''business.pipeline.step3.duration'' (fst (processStep3Message x msg)) =
         [Sub (now x 1) (now x 0)]
     \<and> snd (processStep2Message cfg x msg) = Returned
     \<and> snd (processStep3Message x msg) = Returned
     \<and> deletions (fst (processStep3Message x msg)) = [(service3_queueURL, ReceiptHandle msg)]
     \<and> Sub t u =
         (if t - u < - (2 ^ 63) then - (2 ^ 63)
          else if 2 ^ 63 - 1 < t - u then 2 ^ 63 - 1
          else t - u)"
  unfolding timing_step2_transit [OF assms] timing_step3_metrics [OF assms]
  by (simp add: outcome_processStep2Message [OF assms(1)]
      outcome_processStep3Message [OF assms(1)] deletions_processStep3Message [OF assms]
      Sub_def saturate_def)

theorem derived_metrics_guards_witness:
  "Body (delivery json2) = Some json2
   \<and> unmarshal (world (t0 + 400 * Millisecond)) json2 = Inr item2
   \<and> timing ''business.pipeline.step2_to_step3.duration''
        (fst (processStep3Message (world (t0 + 400 * Millisecond)) (delivery json2))) =
       [100 * Millisecond]
   \<and> timing ''business.pipeline.end_to_end.duration''
        (fst (processStep3Message (world (t0 + 400 * Millisecond)) (delivery json2))) =
       [450 * Millisecond]
   \<and> timing ''business.pipeline.step1.calculated_duration''
        (fst (processStep3Message (world (t0 + 400 * Millisecond)) (delivery json2))) =
       [100 * Millisecond]
   \<and> timing ''business.pipeline.step2.calculated_duration''
        (fst (processStep3Message (world (t0 + 400 * Millisecond)) (delivery json2))) =
       [150 * Millisecond]
   \<and> deletions (fst (processStep3Message (world (t0 + 400 * Millisecond)) (delivery json2))) =
       [(service3_queueURL, Some ''rh-1'')]
   \<and> Sub (t0 + 500 * Millisecond) (- 62135596800000000000) = 2 ^ 63 - 1"
proof -
  have b: "Body (delivery json2) = Some json2"
    by (simp add: delivery_simps)
  have u: "unmarshal (world (t0 + 400 * Millisecond)) json2 = Inr item2"
    by (rule world_decodes)
  have f: "StartTime (Pipeline item2) = ''2024-01-01T00:00:00.05Z''"
    "Step1Complete (Pipeline item2) = ''2024-01-01T00:00:00.15Z''"
    "Step2Complete (Pipeline item2) = ''2024-01-01T00:00:00.3Z''"
    by (simp_all add: item2_def)
  show ?thesis
    using derived_metrics_guards [OF b u, of cfg0]
    by (simp add: b world_decodes f world_parses world_now delivery_simps Sub_def saturate_def
        Millisecond_def t0_def)
qed

text \<open>
  The calculated step-2 duration is the difference of \<^verbatim>\<open>step2_complete\<close> and
  \<^verbatim>\<open>step1_complete\<close>, but it is computed inside the branch guarded by \<^verbatim>\<open>start_time\<close>:
  with an empty \<^verbatim>\<open>start_time\<close> and both of its own inputs well-formed it is not emitted,
  so the claim as stated fails.
\<close>

theorem metric_skipped_with_wellformed_inputs_counterexample:
  "unmarshal (world (t0 + 400 * Millisecond)) json2_unstarted = Inr item2_unstarted
   \<and> StartTime (Pipeline item2_unstarted) = []
   \<and> parseTime (world (t0 + 400 * Millisecond)) (Step1Complete (Pipeline item2_unstarted)) =
       Some (t0 + 150 * Millisecond)
   \<and> parseTime (world (t0 + 400 * Millisecond)) (Step2Complete (Pipeline item2_unstarted)) =
       Some (t0 + 300 * Millisecond)
   \<and> timing ''business.pipeline.step2.calculated_duration''
        (fst (processStep3Message (world (t0 + 400 * Millisecond)) (delivery json2_unstarted))) = []
   \<and> timing ''business.pipeline.step2_to_step3.duration''
        (fst (processStep3Message (world (t0 + 400 * Millisecond)) (delivery json2_unstarted))) =
       [100 * Millisecond]"
  by (simp add: world_decodes item_fields world_parses world_now Sub_def saturate_def
      Millisecond_def
      timing_step3_metrics [OF delivery_simps(1) world_decodes(9)])

lemma logs_simps [simp]:
  "logs [] = []"
  "logs (e # es) = (case log_of e of None \<Rightarrow> logs es | Some l \<Rightarrow> l # logs es)"
  "logs (xs @ ys) = logs xs @ logs ys"
  by (simp_all add: logs_def map_filter_append split: option.splits)

lemma logged_unlogged_blocks [simp]:
  "logged key (step3_receive_tags span cid) = []"
  "logged key (step3_transit_metric x m t) = []"
  "logged key (step3_calculated_metrics x m) = []"
  "logged key (step3_sli_metrics d) = []"
  "logged key (step3_pipeline_sli x m) = []"
  by (simp_all add: step3_block_defs split: sum.splits option.splits)

lemma logged_correlation_id_processStep3Message:
  assumes "Body msg = Some b" and "unmarshal x b = Inr m"
  shows "set (logged ''correlation.id'' (fst (processStep3Message x msg))) =
           {S (correlationID_of x m)}"
  using assms
  by (auto simp add: processStep3Message_def Let_def step3_receive_span_def step3_complete_def
      split: sum.splits)

lemma sends_processStep3Message:
  assumes "Body msg = Some b"
  shows "sends (fst (processStep3Message x msg)) = []"
  by (subst sends_sqs_calls)
     (simp add: sqs_calls_processStep3Message [OF assms] sends_def split: sum.splits)

subsection \<open>The correlation id along the pipeline\<close>

text \<open>
  Claim C6. Follow one item: stage 1 builds it from a POST request and sends its encoding;
  stage 2 receives that body, decodes it to the same item and forwards the encoding of the
  updated item; stage 3 receives that body and decodes it. With a UUID generator that returns
  a non-empty string, the \<^verbatim>\<open>correlation_id\<close> assigned at ingress (the header, or the
  generated UUID) is the field of the item stage 2 forwards and the id under which stage 3
  logs it. No later stage assigns the field: the update of stage 2 leaves it as it is, and
  stage 3 forwards nothing.
\<close>

theorem correlation_id_stable:
  assumes "Method r = ''POST''" and "uuid x1 \<noteq> []" and "XInjectError r \<noteq> ''true''"
    and "marshal x1 (step1_message x1 r) = Inr b1"
    and "Body msg2 = Some b1" and "unmarshal x2 b1 = Inr (step1_message x1 r)"
    and "marshal x2 (step2_update x2 (step1_message x1 r)) = Inr b2"
    and "Body msg3 = Some b2"
    and "unmarshal x3 b2 = Inr (step2_update x2 (step1_message x1 r))"
  shows "step1_correlationID x1 r = (if XCorrelationID r = [] then uuid x1 else XCorrelationID r)
     \<and> step1_correlationID x1 r \<noteq> []
     \<and> CorrelationID (step1_message x1 r) = step1_correlationID x1 r
     \<and> sends (sendMessageHandler x1 r) = [(service1_queueURL, b1)]
     \<and> sends (fst (processStep2Message cfg x2 msg2)) = [(outputQueueURL, b2)]
     \<and> CorrelationID (step2_update x2 (step1_message x1 r)) = step1_correlationID x1 r
     \<and> set (logged ''correlation.id'' (fst (processStep3Message x3 msg3))) =
         {S (step1_correlationID x1 r)}
     \<and> sends (fst (processStep3Message x3 msg3)) = []
     \<and> CorrelationID (step2_update x m) = CorrelationID m"
proof -
  have 1: "step1_correlationID x1 r \<noteq> []"
    using assms(2) by (simp add: step1_correlationID_def)
  have 2: "CorrelationID (step1_message x1 r) = step1_correlationID x1 r"
    by (simp add: step1_message_def)
  have 3: "sends (sendMessageHandler x1 r) = [(service1_queueURL, b1)]"
    using assms(1,4) by (simp add: sends_sendMessageHandler)
  have e: "ErrorType (step1_message x1 r) \<noteq> ''invalid_data''"
    using assms(3) by (simp add: step1_message_def)
  have 4: "sends (fst (processStep2Message cfg x2 msg2)) = [(outputQueueURL, b2)]"
    using e assms(7) by (simp add: sends_processStep2Message [OF assms(5,6)])
  have 5: "correlationID_of x3 (step2_update x2 (step1_message x1 r)) = step1_correlationID x1 r"
    using 1 by (simp add: correlationID_of_def step2_update_frame 2)
  show ?thesis
    using 1 2 3 4 5
    by (simp add: logged_correlation_id_processStep3Message [OF assms(8,9)]
        sends_processStep3Message [OF assms(8)] step2_update_frame step1_correlationID_def)
qed

theorem correlation_id_stable_witness:
  "Method (post ''c-1'' []) = ''POST''
   \<and> uuid (world t0) \<noteq> []
   \<and> XInjectError (post ''c-1'' []) \<noteq> ''true''
   \<and> marshal (world t0) (step1_message (world t0) (post ''c-1'' [])) = Inr json1
   \<and> Body (delivery json1) = Some json1
   \<and> unmarshal (world (t0 + 200 * Millisecond)) json1 = Inr (step1_message (world t0) (post ''c-1'' []))
   \<and> marshal (world (t0 + 200 * Millisecond))
        (step2_update (world (t0 + 200 * Millisecond)) (step1_message (world t0) (post ''c-1'' []))) =
       Inr json2
   \<and> Body (delivery json2) = Some json2
   \<and> unmarshal (world (t0 + 400 * Millisecond)) json2 =
       Inr (step2_update (world (t0 + 200 * Millisecond)) (step1_message (world t0) (post ''c-1'' [])))
   \<and> step1_correlationID (world t0) (post ''c-1'' []) = ''c-1''
   \<and> set (logged ''correlation.id''
        (fst (processStep3Message (world (t0 + 400 * Millisecond)) (delivery json2)))) = {S ''c-1''}"
proof -
  have h1: "Method (post ''c-1'' []) = ''POST''" "XInjectError (post ''c-1'' []) \<noteq> ''true''"
    by (simp_all add: post_def)
  have h2: "uuid (world t0) \<noteq> []"
    by (simp add: world_def)
  have h4: "marshal (world t0) (step1_message (world t0) (post ''c-1'' [])) = Inr json1"
    by (simp add: world_step1_message world_encodes)
  have h5: "Body (delivery json1) = Some json1" "Body (delivery json2) = Some json2"
    by (simp_all add: delivery_simps)
  have h6: "unmarshal (world (t0 + 200 * Millisecond)) json1 =
      Inr (step1_message (world t0) (post ''c-1'' []))"
    by (simp add: world_step1_message world_decodes)
  have h7: "marshal (world (t0 + 200 * Millisecond))
        (step2_update (world (t0 + 200 * Millisecond)) (step1_message (world t0) (post ''c-1'' []))) =
       Inr json2"
    by (simp add: world_step1_message world_step2_update world_encodes)
  have h9: "unmarshal (world (t0 + 400 * Millisecond)) json2 =
       Inr (step2_update (world (t0 + 200 * Millisecond)) (step1_message (world t0) (post ''c-1'' [])))"
    by (simp add: world_step1_message world_step2_update world_decodes)
  have c: "step1_correlationID (world t0) (post ''c-1'' []) = ''c-1''"
    by (simp add: step1_correlationID_def post_def)
  show ?thesis
    using correlation_id_stable [OF h1(1) h2 h1(2) h4 h5(1) h6 h7 h5(2) h9, of cfg0]
    by (simp add: h1 h2 h4 h5 h6 h7 h9 c)
qed

subsection \<open>Bodies that do not decode\<close>

text \<open>
  A body that does not decode makes both consumers return normally, so that their loops go
  on with the next message; stage 2 deletes the message first, stage 3 does not.
\<close>

lemma undecodable_body:
  assumes "Body msg = Some b" and "unmarshal x b = Inl err"
  shows "processStep2Message cfg x msg = (step2_malformed cfg x msg err, Returned)"
    and "deletions (fst (processStep2Message cfg x msg)) = [(inputQueueURL, ReceiptHandle msg)]"
    and "processStep3Message x msg = (step3_malformed err, Returned)"
    and "deletions (fst (processStep3Message x msg)) = []"
proof -
  show "processStep2Message cfg x msg = (step2_malformed cfg x msg err, Returned)"
    using assms by (simp add: processStep2Message_def)
  show "processStep3Message x msg = (step3_malformed err, Returned)"
    using assms by (simp add: processStep3Message_def)
  show "deletions (fst (processStep2Message cfg x msg)) = [(inputQueueURL, ReceiptHandle msg)]"
    by (subst deletions_sqs_calls)
       (simp add: sqs_calls_step2_undecodable [OF assms] deletions_def)
  show "deletions (fst (processStep3Message x msg)) = []"
    by (subst deletions_sqs_calls)
       (simp add: sqs_calls_processStep3Message [OF assms(1)] assms(2) deletions_def)
qed

lemma consumeFromStep1_after_message:
  assumes "Body msg = Some b"
  shows "consumeFromStep1 cfg (Messages [(x, msg)] # script) =
     (fst (processStep2Message cfg x msg) @ fst (consumeFromStep1 cfg script),
      snd (consumeFromStep1 cfg script))"
proof -
  obtain effs where p: "processStep2Message cfg x msg = (effs, Returned)"
    using outcome_processStep2Message [OF assms, of cfg x] by (cases "processStep2Message cfg x msg") simp
  show ?thesis
    by (simp add: p split: prod.splits)
qed

lemma consumeFromStep2_after_message:
  assumes "Body msg = Some b"
  shows "consumeFromStep2 (Messages [(x, msg)] # script) =
     (fst (processStep3Message x msg) @ fst (consumeFromStep2 script),
      snd (consumeFromStep2 script))"
proof -
  obtain effs where p: "processStep3Message x msg = (effs, Returned)"
    using outcome_processStep3Message [OF assms, of x] by (cases "processStep3Message x msg") simp
  show ?thesis
    by (simp add: p split: prod.splits)
qed

text \<open>
  Claim C2 at a concrete input: the same undecodable body is deleted from its input queue by
  stage 2, while stage 3 only logs and returns, leaving the message on its queue.
\<close>

theorem stage3_leaves_undecodable_message:
  "unmarshal (world (t0 + 200 * Millisecond)) ''not json'' =
     Inl (GoError ''*json.SyntaxError'' ''invalid character in the body'')
   \<and> deletions (fst (processStep2Message cfg0 (world (t0 + 200 * Millisecond))
                       (delivery ''not json''))) = [(inputQueueURL, Some ''rh-1'')]
   \<and> processStep3Message (world (t0 + 400 * Millisecond)) (delivery ''not json'') =
       ([Log Error [(''service'', S ''service3''), (''operation'', S ''json_unmarshal''),
                    (''queue.url'', S service3_queueURL)]
           (Some (GoError ''*json.SyntaxError'' ''invalid character in the body''))
           ''Failed to unmarshal pipeline message, skipping''],
        Returned)
   \<and> deletions (fst (processStep3Message (world (t0 + 400 * Millisecond))
                       (delivery ''not json''))) = []"
proof -
  note u = undecodable_body [OF delivery_simps(1) world_rejects]
  have "deletions (fst (processStep2Message cfg0 (world (t0 + 200 * Millisecond))
                       (delivery ''not json''))) = [(inputQueueURL, Some ''rh-1'')]"
    by (simp add: u(2) delivery_simps)
  moreover have "processStep3Message (world (t0 + 400 * Millisecond)) (delivery ''not json'') =
       ([Log Error [(''service'', S ''service3''), (''operation'', S ''json_unmarshal''),
                    (''queue.url'', S service3_queueURL)]
           (Some (GoError ''*json.SyntaxError'' ''invalid character in the body''))
           ''Failed to unmarshal pipeline message, skipping''],
        Returned)"
    by (simp add: u(3) step3_malformed_def)
  moreover have "deletions (fst (processStep3Message (world (t0 + 400 * Millisecond))
                       (delivery ''not json''))) = []"
    by (rule u(4))
  ultimately show ?thesis
    using world_rejects by blast
qed

subsection \<open>Receive errors\<close>

text \<open>
  Any number of failed receives leaves both loops at their head, about to receive again.
  Stage 2 logs, counts and pauses five seconds on each; stage 3 does nothing on them.
\<close>

lemma consumeFromStep1_receive_errors:
  "consumeFromStep1 cfg (map ReceiveError errs) =
     (concat (map (step2_receive_failed cfg) errs), Polling)"
  by (induction errs) simp_all

lemma consumeFromStep2_receive_errors:
  "consumeFromStep2 (map ReceiveError errs) = ([], Polling)"
  by (induction errs) simp_all

lemma consumeFromStep1_after_receive_error:
  "consumeFromStep1 cfg (ReceiveError err # script) =
     (step2_receive_failed cfg err @ fst (consumeFromStep1 cfg script),
      snd (consumeFromStep1 cfg script))"
  by (simp split: prod.splits)

lemma step2_messages_return:
  "list_all (\<lambda>(x, msg). Body msg \<noteq> None) msgs \<Longrightarrow> snd (step2_messages cfg msgs) = Returned"
proof (induction msgs)
  case Nil
  then show ?case by simp
next
  case (Cons p msgs)
  obtain x msg where p: "p = (x, msg)"
    by (cases p)
  from Cons.prems p obtain b where b: "Body msg = Some b"
    by auto
  obtain effs where e: "processStep2Message cfg x msg = (effs, Returned)"
    using outcome_processStep2Message [OF b, of cfg x]
    by (cases "processStep2Message cfg x msg") simp
  from Cons show ?case
    by (auto simp add: p e split: prod.splits)
qed

lemma step3_messages_return:
  "list_all (\<lambda>(x, msg). Body msg \<noteq> None) msgs \<Longrightarrow> snd (step3_messages msgs) = Returned"
proof (induction msgs)
  case Nil
  then show ?case by simp
next
  case (Cons p msgs)
  obtain x msg where p: "p = (x, msg)"
    by (cases p)
  from Cons.prems p obtain b where b: "Body msg = Some b"
    by auto
  obtain effs where e: "processStep3Message x msg = (effs, Returned)"
    using outcome_processStep3Message [OF b, of x]
    by (cases "processStep3Message x msg") simp
  from Cons show ?case
    by (auto simp add: p e split: prod.splits)
qed

lemma consumeFromStep1_never_exits:
  "list_all bodies_present script \<Longrightarrow> snd (consumeFromStep1 cfg script) = Polling"
proof (induction script)
  case Nil
  then show ?case by simp
next
  case (Cons it script)
  show ?case
  proof (cases it)
    case (ReceiveError err)
    with Cons show ?thesis
      by (auto split: prod.splits)
  next
    case (Messages msgs)
    with Cons.prems have "snd (step2_messages cfg msgs) = Returned"
      by (simp add: step2_messages_return)
    with Cons Messages show ?thesis
      by (cases "step2_messages cfg msgs") (auto split: prod.splits)
  qed
qed

lemma consumeFromStep2_never_exits:
  "list_all bodies_present script \<Longrightarrow> snd (consumeFromStep2 script) = Polling"
proof (induction script)
  case Nil
  then show ?case by simp
next
  case (Cons it script)
  show ?case
  proof (cases it)
    case (ReceiveError err)
    with Cons show ?thesis
      by simp
  next
    case (Messages msgs)
    with Cons.prems have "snd (step3_messages msgs) = Returned"
      by (simp add: step3_messages_return)
    with Cons Messages show ?thesis
      by (cases "step3_messages msgs") (auto split: prod.splits)
  qed
qed

text \<open>
  Claim C5 at a concrete input: on the same receive error stage 2 logs, counts and waits
  before polling again, while stage 3 polls again at once, without a log entry or a pause.
\<close>

theorem stage3_receive_error_not_logged_no_wait:
  "consumeFromStep1 cfg0
     [ReceiveError (GoError ''*smithy.OperationError'' ''connection refused'')] =
     ([Log Error [(''service'', S ''service2''), (''operation'', S ''sqs_receive''),
                  (''shard'', S ''shard-1''), (''queue.url'', S inputQueueURL)]
         (Some (GoError ''*smithy.OperationError'' ''connection refused''))
         ''Failed to receive messages from SQS, retrying...'',
       Incr ''business.pipeline.errors.sqs.receive'' [''service:service2''],
       Sleep (5 * Second)],
      Polling)
   \<and> consumeFromStep2
     [ReceiveError (GoError ''*smithy.OperationError'' ''connection refused'')] = ([], Polling)"
  by (simp add: step2_receive_failed_def cfg0_def)

subsection \<open>Trace carriers\<close>

lemma logs_step2_silent_blocks [simp]:
  "logs (step2_receive_tags cfg span cid) = []"
  "logs (step2_transit_metric x m t) = []"
  "logs (step2_success_metrics cfg d) = []"
  "logs (step2_send_tags cfg span cid) = []"
  "logs (step2_error_tags span' span err) = []"
  by (simp_all add: step2_block_defs split: sum.splits option.splits)

lemma logs_step3_silent_blocks [simp]:
  "logs (step3_receive_tags span cid) = []"
  "logs (step3_transit_metric x m t) = []"
  "logs (step3_calculated_metrics x m) = []"
  "logs (step3_sli_metrics d) = []"
  "logs (step3_pipeline_sli x m) = []"
  by (simp_all add: step3_block_defs split: sum.splits option.splits)

lemma logs_step1_silent_blocks [simp]:
  "logs (step1_sqs_tags sendSpan sqsSpan cid) = []"
  "logs (step1_metrics injectError d) = []"
  by (simp_all add: step1_sqs_tags_def step1_metrics_def)

lemma step2_span_cases:
  "step2_span cfg x msg m =
     (case Extract x (carrier_of (MessageAttributes msg)) of
        Inl err \<Rightarrow> Local ''sqs.receive'' None
      | Inr spanCtx \<Rightarrow> Local ''sqs.receive'' (Some spanCtx))"
  by (simp add: step2_span_def step2_receive_span_def split: sum.splits)

lemma step2_span_started:
  assumes "Body msg = Some b" and "unmarshal x b = Inr m"
  shows "StartSpan (step2_span cfg x msg m) \<in> set (fst (processStep2Message cfg x msg))"
  using assms
  by (simp add: processStep2Message_def Let_def step2_span_def step2_receive_span_def
      split: sum.splits)

lemma step3_span_started:
  assumes "Body msg = Some b" and "unmarshal x b = Inr m"
  shows "StartSpan (case Extract x (carrier_of (MessageAttributes msg)) of
                      Inl err \<Rightarrow> Local ''sqs.receive'' None
                    | Inr spanCtx \<Rightarrow> Local ''sqs.receive'' (Some spanCtx))
           \<in> set (fst (processStep3Message x msg))"
  using assms
  by (simp add: processStep3Message_def Let_def step3_receive_span_def split: sum.splits)

lemma extract_logged_step2:
  assumes "Body msg = Some b" and "unmarshal x b = Inr m"
  shows "(Debug, ''Failed to extract trace context, starting new span'')
           \<in> set (logs (fst (processStep2Message cfg x msg)))
         \<longleftrightarrow> isl (Extract x (carrier_of (MessageAttributes msg)))"
  using assms
  by (simp add: processStep2Message_def Let_def step2_receive_span_def step2_short_circuit_def
      step2_forward_def step2_marshal_failed_def step2_send_failed_def
      step2_delete_processed_def split: sum.splits option.splits)

lemma inject_logged_step2:
  assumes "Body msg = Some b" and "unmarshal x b = Inr m" and "ErrorType m \<noteq> ''invalid_data''"
  shows "(Debug, ''Failed to inject trace context, continuing without tracing'')
           \<in> set (logs (fst (processStep2Message cfg x msg)))
         \<longleftrightarrow> snd (Inject x (Local ''sqs.send'' (Some (step2_span cfg x msg m)))) \<noteq> None"
  using assms
  by (simp add: processStep2Message_def Let_def step2_span_def step2_receive_span_def
      step2_forward_def step2_marshal_failed_def step2_send_failed_def
      step2_delete_processed_def split: sum.splits option.splits)

lemma extract_logged_step3:
  assumes "Body msg = Some b" and "unmarshal x b = Inr m"
  shows "(Debug, ''Failed to extract trace context, starting new span'')
           \<in> set (logs (fst (processStep3Message x msg)))
         \<longleftrightarrow> isl (Extract x (carrier_of (MessageAttributes msg)))"
  using assms
  by (simp add: processStep3Message_def Let_def step3_receive_span_def step3_complete_def
      split: sum.splits option.splits)

lemma inject_logged_step1:
  assumes "Method r = ''POST''"
  shows "(Warn, ''Failed to inject trace context, continuing without tracing'')
           \<in> set (logs (sendMessageHandler x r))
         \<longleftrightarrow> snd (Inject x (step1_sqs_span r)) \<noteq> None"
  using assms
  by (simp add: sendMessageHandler_def Let_def sendToService2_def step1_sqs_span_def
      step1_inject_error_def step1_send_failed_def step1_completed_def
      split: sum.splits option.splits)

text \<open>
  Claim C4. For every carrier a consumer starts its receive span: a child of the extracted
  context, or a fresh root when \<^verbatim>\<open>tracer.Extract\<close> returns an error, which is then (and only
  then) logged at debug level. The handler returns normally and goes on: stage 2 sends the
  encoded item whatever the tracer did, stage 3 runs its step and deletes the message. On the
  sending side a failure of \<^verbatim>\<open>tracer.Inject\<close> is logged (debug level in stage 2, warning
  level in stage 1) exactly when it occurs, and the send is issued all the same.
\<close>

theorem trace_context_failures_not_fatal:
  assumes "Body msg = Some b" and "unmarshal x b = Inr m" and "ErrorType m \<noteq> ''invalid_data''"
    and "Method r = ''POST''"
  shows "snd (processStep2Message cfg x msg) = Returned
     \<and> StartSpan (case Extract x (carrier_of (MessageAttributes msg)) of
                     Inl err \<Rightarrow> Local ''sqs.receive'' None
                   | Inr spanCtx \<Rightarrow> Local ''sqs.receive'' (Some spanCtx))
         \<in> set (fst (processStep2Message cfg x msg))
     \<and> ((Debug, ''Failed to extract trace context, starting new span'')
           \<in> set (logs (fst (processStep2Message cfg x msg)))
         \<longleftrightarrow> isl (Extract x (carrier_of (MessageAttributes msg))))
     \<and> ((Debug, ''Failed to inject trace context, continuing without tracing'')
           \<in> set (logs (fst (processStep2Message cfg x msg)))
         \<longleftrightarrow> snd (Inject x (Local ''sqs.send'' (Some (step2_span cfg x msg m)))) \<noteq> None)
     \<and> sends (fst (processStep2Message cfg x msg)) =
         (case marshal x (step2_update x m) of
            Inl err \<Rightarrow> []
          | Inr body \<Rightarrow> [(outputQueueURL, body)])
     \<and> snd (processStep3Message x msg) = Returned
     \<and> StartSpan (case Extract x (carrier_of (MessageAttributes msg)) of
                     Inl err \<Rightarrow> Local ''sqs.receive'' None
                   | Inr spanCtx \<Rightarrow> Local ''sqs.receive'' (Some spanCtx))
         \<in> set (fst (processStep3Message x msg))
     \<and> ((Debug, ''Failed to extract trace context, starting new span'')
           \<in> set (logs (fst (processStep3Message x msg)))
         \<longleftrightarrow> isl (Extract x (carrier_of (MessageAttributes msg))))
     \<and> sleeps (fst (processStep3Message x msg)) = [40 * Millisecond]
     \<and> deletions (fst (processStep3Message x msg)) = [(service3_queueURL, ReceiptHandle msg)]
     \<and> ((Warn, ''Failed to inject trace context, continuing without tracing'')
           \<in> set (logs (sendMessageHandler x1 r))
         \<longleftrightarrow> snd (Inject x1 (step1_sqs_span r)) \<noteq> None)
     \<and> sends (sendMessageHandler x1 r) =
         (case marshal x1 (step1_message x1 r) of
            Inl err \<Rightarrow> []
          | Inr body \<Rightarrow> [(service1_queueURL, body)])"
proof -
  have s2: "StartSpan (case Extract x (carrier_of (MessageAttributes msg)) of
                     Inl err \<Rightarrow> Local ''sqs.receive'' None
                   | Inr spanCtx \<Rightarrow> Local ''sqs.receive'' (Some spanCtx))
         \<in> set (fst (processStep2Message cfg x msg))"
    using step2_span_started [OF assms(1,2), of cfg] by (simp add: step2_span_cases)
  have f2: "sends (fst (processStep2Message cfg x msg)) =
         (case marshal x (step2_update x m) of
            Inl err \<Rightarrow> []
          | Inr body \<Rightarrow> [(outputQueueURL, body)])"
    using assms(3) by (simp add: sends_processStep2Message [OF assms(1,2)])
  have f1: "sends (sendMessageHandler x1 r) =
         (case marshal x1 (step1_message x1 r) of
            Inl err \<Rightarrow> []
          | Inr body \<Rightarrow> [(service1_queueURL, body)])"
    using assms(4) by (simp add: sends_sendMessageHandler)
  show ?thesis
    using s2 f2 f1
      outcome_processStep2Message [OF assms(1), of cfg x]
      outcome_processStep3Message [OF assms(1), of x]
      extract_logged_step2 [OF assms(1,2), of cfg]
      inject_logged_step2 [OF assms(1,2,3), of cfg]
      step3_span_started [OF assms(1,2)]
      extract_logged_step3 [OF assms(1,2)]
      sleeps_processStep3Message [OF assms(1,2)]
      deletions_processStep3Message [OF assms(1,2)]
      inject_logged_step1 [OF assms(4), of x1]
    by blast
qed

lemma world_untraced_like_world:
  "unmarshal (world_untraced s) = unmarshal (world s)"
  "marshal (world_untraced s) = marshal (world s)"
  "step2_update (world_untraced s) m = step2_update (world s) m"
  "step1_message (world_untraced s) r = step1_message (world s) r"
  "Extract (world_untraced s) = Extract (world s)"
  "snd (Inject (world_untraced s) span) =
     Some (GoError ''*errors.errorString'' ''invalid span context'')"
  by (simp_all add: world_untraced_def step2_update_def step1_message_def step1_correlationID_def)

lemma world_extract_untraced:
  "Extract (world s) (carrier_of (MessageAttributes (delivery_untraced body))) =
     Inl (GoError ''*errors.errorString'' ''span context not found'')"
  by (simp add: world_def delivery_untraced_def carrier_of_def)

theorem trace_context_failures_not_fatal_witness:
  "Body (delivery_untraced json1) = Some json1
   \<and> unmarshal (world_untraced (t0 + 200 * Millisecond)) json1 = Inr item1
   \<and> ErrorType item1 \<noteq> ''invalid_data''
   \<and> Method (post ''c-1'' []) = ''POST''
   \<and> isl (Extract (world_untraced (t0 + 200 * Millisecond))
             (carrier_of (MessageAttributes (delivery_untraced json1))))
   \<and> snd (Inject (world_untraced (t0 + 200 * Millisecond))
             (Local ''sqs.send'' (Some (step2_span cfg0 (world_untraced (t0 + 200 * Millisecond))
                                          (delivery_untraced json1) item1)))) \<noteq> None
   \<and> snd (Inject (world_untraced t0) (step1_sqs_span (post ''c-1'' []))) \<noteq> None
   \<and> StartSpan (Local ''sqs.receive'' None)
       \<in> set (fst (processStep2Message cfg0 (world_untraced (t0 + 200 * Millisecond))
                      (delivery_untraced json1)))
   \<and> (Debug, ''Failed to extract trace context, starting new span'')
       \<in> set (logs (fst (processStep2Message cfg0 (world_untraced (t0 + 200 * Millisecond))
                            (delivery_untraced json1))))
   \<and> (Debug, ''Failed to inject trace context, continuing without tracing'')
       \<in> set (logs (fst (processStep2Message cfg0 (world_untraced (t0 + 200 * Millisecond))
                            (delivery_untraced json1))))
   \<and> sends (fst (processStep2Message cfg0 (world_untraced (t0 + 200 * Millisecond))
                    (delivery_untraced json1))) = [(outputQueueURL, json2)]
   \<and> (Warn, ''Failed to inject trace context, continuing without tracing'')
       \<in> set (logs (sendMessageHandler (world_untraced t0) (post ''c-1'' [])))
   \<and> sends (sendMessageHandler (world_untraced t0) (post ''c-1'' [])) =
       [(service1_queueURL, json1)]"
proof -
  have b: "Body (delivery_untraced json1) = Some json1"
    by (simp add: delivery_simps)
  have u: "unmarshal (world_untraced (t0 + 200 * Millisecond)) json1 = Inr item1"
    by (simp add: world_untraced_like_world world_decodes)
  have e: "ErrorType item1 \<noteq> ''invalid_data''"
    by (simp add: item_fields)
  have p: "Method (post ''c-1'' []) = ''POST''"
    by (simp add: post_def)
  show ?thesis
    using trace_context_failures_not_fatal [OF b u e p, of cfg0 "world_untraced t0"]
    by (simp add: b e p world_untraced_like_world world_extract_untraced world_decodes
        world_step2_update world_step1_message world_encodes)
qed

end
